theory Spec2Isabelle
  imports Main "HOL-Library.Word"
begin

section \<open>Data model of rc.go\<close>

text \<open>
  The two structs of the chaincode. Go's \<open>uint64\<close> is \<open>64 word\<close>: \<open>+\<close> and \<open>-\<close>
  wrap around and \<open><\<close> compares unsigned, as in the source. Both structs have a field
  called \<open>Value\<close>; they are told apart by the record name.
\<close>

record TransferInfo =
  FromOrTo :: string
  Value :: "64 word"
  Date :: string
  TxType :: string

record Wallet =
  Value :: "64 word"
  Transfer :: TransferInfo

text \<open>The zero value of each struct (\<open>Wallet{}\<close>, \<open>var wallet Wallet\<close>).\<close>

definition zero_TransferInfo :: TransferInfo where
  "zero_TransferInfo = \<lparr>FromOrTo = [], Value = 0, Date = [], TxType = []\<rparr>"

definition zero_Wallet :: Wallet where
  "zero_Wallet = \<lparr>Value = 0, Transfer = zero_TransferInfo\<rparr>"

section \<open>encoding/json, as far as the chaincode uses it\<close>

text \<open>
  Strings. \<open>json.Marshal\<close> walks a Go string with \<open>utf8.DecodeRuneInString\<close> and writes
  every byte at which that function returns \<open>(RuneError, 1)\<close> as the escape
  \<open>\ufffd\<close>; all other bytes come back from \<open>json.Unmarshal\<close> as they were. A string
  therefore reads back with each byte that starts no well-formed UTF-8 sequence replaced
  by the three bytes EF BF BD.

  \<open>DecodeRuneInString_size\<close> is the size that \<open>utf8.DecodeRuneInString\<close> returns for a
  string that is not empty, with \<open>None\<close> for \<open>(RuneError, 1)\<close>: the table \<open>first\<close> of
  package utf8 gives the size and the range accepted for the second byte, the later bytes
  must lie in 80..BF. The encoder never asks for the empty string.
\<close>

definition in_range :: "nat \<Rightarrow> nat \<Rightarrow> char \<Rightarrow> bool" where
  "in_range lo hi c = (lo \<le> (of_char c :: nat) \<and> (of_char c :: nat) \<le> hi)"

definition DecodeRuneInString_size :: "string \<Rightarrow> nat option" where
  "DecodeRuneInString_size s =
     (let n = length s; s0 = (of_char (s ! 0) :: nat)
      in if n < 1 then None
         else if s0 < 128 then Some 1
         else if s0 < 194 \<or> 244 < s0 then None
         else
           let sz = (if s0 < 224 then 2 else if s0 < 240 then 3 else (4::nat));
               lo = (if s0 = 224 then 160 else if s0 = 240 then 144 else (128::nat));
               hi = (if s0 = 237 then 159 else if s0 = 244 then 143 else (191::nat))
           in if n < sz then None
              else if \<not> in_range lo hi (s ! 1) then None
              else if sz \<le> 2 then Some 2
              else if \<not> in_range 128 191 (s ! 2) then None
              else if sz \<le> 3 then Some 3
              else if \<not> in_range 128 191 (s ! 3) then None
              else Some 4)"

text \<open>
  The loop of the encoder over the bytes of a string, read back: \<open>k\<close> counts the bytes
  of the current sequence that are still to be copied.
\<close>

fun string_from :: "nat \<Rightarrow> string \<Rightarrow> string" where
  "string_from k [] = []"
| "string_from k (c # cs) =
     (if 0 < k then c # string_from (k - 1) cs
      else case DecodeRuneInString_size (c # cs) of
             None \<Rightarrow> [CHR 0xEF, CHR 0xBF, CHR 0xBD] @ string_from 0 cs
           | Some width \<Rightarrow> c # string_from (width - 1) cs)"

text \<open>\<open>json_string s\<close> is what a Go string \<open>s\<close> reads back as after \<open>json.Marshal\<close>.\<close>

definition json_string :: "string \<Rightarrow> string" where
  "json_string s = string_from 0 s"

text \<open>
  Documents. The chaincode stores wallets as JSON and ignores every error of
  \<open>json.Unmarshal\<close>, so all that matters of a stored byte string is what decoding it does
  to the struct it is decoded into, and whether an error is returned. A byte string is
  therefore modelled by that effect:
  \<^item> \<open>Malformed\<close>: not valid JSON. \<open>json.Unmarshal\<close> returns a syntax error and leaves
    the target as it was.
  \<^item> \<open>Document e v t\<close>: valid JSON. \<open>v\<close> is the number under \<open>value\<close> when that key
    is present and fits \<open>uint64\<close>, \<open>t\<close> the object under \<open>Transfer\<close>, with each of its
    four keys present or not. A key that is absent, \<open>null\<close> or of the wrong type leaves
    the corresponding field of the target untouched (\<open>None\<close> here). \<open>e\<close> tells whether
    some value was of the wrong type, the document itself when it is no object included:
    then \<open>json.Unmarshal\<close> fills the fields it can and returns an error. The document
    \<open>null\<close> is \<open>Document False None None\<close>.
  The strings of a document are the decoded ones.
\<close>

record TransferDoc =
  dFromOrTo :: "string option"
  dValue :: "64 word option"
  dDate :: "string option"
  dTxType :: "string option"

datatype bytes = Malformed | Document bool "64 word option" "TransferDoc option"

definition Unmarshal_TransferInfo :: "TransferDoc \<Rightarrow> TransferInfo \<Rightarrow> TransferInfo" where
  "Unmarshal_TransferInfo d t =
     \<lparr>FromOrTo = (case dFromOrTo d of None \<Rightarrow> FromOrTo t | Some x \<Rightarrow> x),
      Value = (case dValue d of None \<Rightarrow> TransferInfo.Value t | Some x \<Rightarrow> x),
      Date = (case dDate d of None \<Rightarrow> Date t | Some x \<Rightarrow> x),
      TxType = (case dTxType d of None \<Rightarrow> TxType t | Some x \<Rightarrow> x)\<rparr>"

fun Unmarshal :: "bytes \<Rightarrow> Wallet \<Rightarrow> Wallet" where
  "Unmarshal Malformed w = w"
| "Unmarshal (Document e v t) w =
     \<lparr>Value = (case v of None \<Rightarrow> Wallet.Value w | Some x \<Rightarrow> x),
      Transfer = (case t of None \<Rightarrow> Transfer w
                  | Some d \<Rightarrow> Unmarshal_TransferInfo d (Transfer w))\<rparr>"

text \<open>
  \<open>json.Unmarshal\<close>'s error result: non-nil on a malformed document and on a document
  with a value of the wrong type.
\<close>

fun Unmarshal_fails :: "bytes \<Rightarrow> bool" where
  "Unmarshal_fails Malformed = True"
| "Unmarshal_fails (Document e v t) = e"

definition Marshal :: "Wallet \<Rightarrow> bytes" where
  "Marshal w =
     Document False (Some (Wallet.Value w))
       (Some \<lparr>dFromOrTo = Some (json_string (FromOrTo (Transfer w))),
              dValue = Some (TransferInfo.Value (Transfer w)),
              dDate = Some (json_string (Date (Transfer w))),
              dTxType = Some (json_string (TxType (Transfer w)))\<rparr>)"

section \<open>strconv, as far as the chaincode uses it\<close>

text \<open>
  \<open>strconv.ParseUint(s, 10, bitSize)\<close>, \<open>strconv.Atoi\<close> and \<open>strconv.Itoa\<close> of the Go
  standard library, in base 10 and with a 64-bit \<open>int\<close>. Each parser returns its value
  together with its error, \<open>None\<close> for \<open>nil\<close>; the chaincode drops the error and keeps
  the value.
\<close>

datatype NumError = ErrSyntax | ErrRange

definition is_digit :: "char \<Rightarrow> bool" where
  "is_digit c = (48 \<le> (of_char c :: nat) \<and> (of_char c :: nat) \<le> 57)"

definition digit_val :: "char \<Rightarrow> nat" where
  "digit_val c = of_char c - 48"

text \<open>
  The loop of \<open>ParseUint\<close>: \<open>n\<close> is the value read so far, \<open>cutoff\<close> is
  \<open>maxUint64/10 + 1\<close>. A character that is no decimal digit ends the loop with value 0
  and a syntax error; an overflow ends it with \<open>maxVal\<close>, the largest value of the bit
  size as the package documents, and a range error, before the rest of the string is
  looked at.
\<close>

definition cutoff10 :: "64 word" where
  "cutoff10 = 1844674407370955162"

fun ParseUint_loop :: "64 word \<Rightarrow> 64 word \<Rightarrow> string \<Rightarrow> 64 word \<times> NumError option" where
  "ParseUint_loop maxVal n [] = (n, None)"
| "ParseUint_loop maxVal n (c # cs) =
     (if \<not> is_digit c then (0, Some ErrSyntax)
      else if cutoff10 \<le> n then (maxVal, Some ErrRange)
      else let n10 = n * 10; n1 = n10 + of_nat (digit_val c)
           in if n1 < n10 \<or> maxVal < n1 then (maxVal, Some ErrRange)
              else ParseUint_loop maxVal n1 cs)"

definition ParseUint :: "string \<Rightarrow> nat \<Rightarrow> 64 word \<times> NumError option" where
  "ParseUint s bitSize =
     (if s = [] then (0, Some ErrSyntax)
      else ParseUint_loop (2 ^ bitSize - 1) 0 s)"

definition ParseInt :: "string \<Rightarrow> 64 word \<times> NumError option" where
  "ParseInt s0 =
     (if s0 = [] then (0, Some ErrSyntax)
      else
        let neg = (hd s0 = CHR ''-'');
            s = (if hd s0 = CHR ''+'' \<or> hd s0 = CHR ''-'' then tl s0 else s0);
            (un, err) = ParseUint s 64;
            cutoff = (2 ^ 63 :: 64 word)
        in if err = Some ErrSyntax then (0, err)
           else if \<not> neg \<and> cutoff \<le> un then (cutoff - 1, Some ErrRange)
           else if neg \<and> cutoff < un then (- cutoff, Some ErrRange)
           else (if neg then - un else un, None))"

text \<open>The fast path of \<open>Atoi\<close>, for strings of 1 to 18 bytes; \<open>None\<close> is its syntax error.\<close>

fun Atoi_loop :: "64 word \<Rightarrow> string \<Rightarrow> 64 word option" where
  "Atoi_loop n [] = Some n"
| "Atoi_loop n (ch # cs) =
     (if \<not> is_digit ch then None else Atoi_loop (n * 10 + of_nat (digit_val ch)) cs)"

definition Atoi :: "string \<Rightarrow> 64 word \<times> NumError option" where
  "Atoi s0 =
     (if 0 < length s0 \<and> length s0 < 19 then
        (let s = (if hd s0 = CHR ''-'' \<or> hd s0 = CHR ''+'' then tl s0 else s0)
         in if s = [] then (0, Some ErrSyntax)
            else case Atoi_loop 0 s of
                   None \<Rightarrow> (0, Some ErrSyntax)
                 | Some n \<Rightarrow> (if hd s0 = CHR ''-'' then - n else n, None))
      else ParseInt s0)"

definition digit_char :: "nat \<Rightarrow> char" where
  "digit_char d = ''0123456789'' ! d"

fun decimal :: "nat \<Rightarrow> string" where
  "decimal n = (if n < 10 then [digit_char n] else decimal (n div 10) @ [digit_char (n mod 10)])"

declare decimal.simps [simp del]

definition Itoa :: "64 word \<Rightarrow> string" where
  "Itoa i = (if sint i < 0 then CHR ''-'' # decimal (nat (- sint i)) else decimal (nat (sint i)))"

section \<open>The chaincode stub\<close>

text \<open>
  \<open>shim.ChaincodeStubInterface\<close> is the external store. The model keeps what the
  chaincode can observe of it: the world state read by \<open>GetState\<close>, which writes the
  store refuses (\<open>PutState\<close> returning an error), the transaction identifier, and the
  history iterator of each key. \<open>puts\<close> logs every \<open>PutState\<close> call in order, refused
  ones included, so that the order and number of writes can be stated.
\<close>

record KeyModification =
  TxId :: string
  Value :: "bytes option"

record Stub =
  state :: "string \<rightharpoonup> bytes"
  refuses :: "string \<Rightarrow> bytes \<Rightarrow> bool"
  puts :: "(string \<times> bytes) list"
  txid :: string
  history :: "string \<Rightarrow> string + (string + KeyModification) list"

text \<open>\<open>GetState\<close>: \<open>None\<close> is the nil slice, returned for an absent key and with an error.\<close>

definition GetState :: "Stub \<Rightarrow> string \<Rightarrow> bytes option" where
  "GetState stub key = state stub key"

text \<open>\<open>PutState\<close>: the first component is \<open>err != nil\<close>.\<close>

definition PutState :: "Stub \<Rightarrow> string \<Rightarrow> bytes \<Rightarrow> bool \<times> Stub" where
  "PutState stub key v =
     (if refuses stub key v then (True, stub\<lparr>puts := puts stub @ [(key, v)]\<rparr>)
      else (False, stub\<lparr>state := (state stub)(key \<mapsto> v), puts := puts stub @ [(key, v)]\<rparr>))"

definition GetTxID :: "Stub \<Rightarrow> string" where
  "GetTxID stub = txid stub"

text \<open>
  \<open>GetHistoryForKey\<close>: \<open>Inl\<close> is the error of opening the iterator; otherwise the
  iterator is the list of what each \<open>Next()\<close> returns, an error or a modification.
\<close>

definition GetHistoryForKey :: "Stub \<Rightarrow> string \<Rightarrow> string + (string + KeyModification) list" where
  "GetHistoryForKey stub key = history stub key"

section \<open>Responses\<close>

text \<open>
  \<open>shim.Error\<close> carries only a message. The messages are grouped by kind:
  \<^item> \<open>InvalidArgument\<close>: "Incorrect number of arguments. Expecting n";
  \<^item> \<open>NotFound\<close>: "Not Found wallet : %s", "Not found wallet";
  \<^item> \<open>InsufficientBalance k\<close>: "k is not enough balance.";
  \<^item> \<open>WriteFailed\<close>: "Failed to create Wallet: k", "Failed to publish", "Failed to transfer: ...";
  \<^item> \<open>StoreError m\<close>: the store's own message \<open>err.Error()\<close>, in \<open>get_txList\<close>.
\<close>

datatype error = InvalidArgument | NotFound | InsufficientBalance string | WriteFailed
  | StoreError string

datatype 'a response = Success 'a | Error error

section \<open>init_wallet\<close>

definition init_wallet :: "Stub \<Rightarrow> string list \<Rightarrow> bytes response \<times> Stub" where
  "init_wallet stub args =
     (if length args \<noteq> 1 then (Error InvalidArgument, stub)
      else
        let newWallet = zero_Wallet\<lparr>Wallet.Value := 0\<rparr>;
            walletAsBytes = Marshal newWallet;
            (err, stub1) = PutState stub (args ! 0) walletAsBytes
        in if err then (Error WriteFailed, stub1)
           else (Success walletAsBytes, stub1))"

section \<open>publish\<close>

definition publish :: "Stub \<Rightarrow> string list \<Rightarrow> bytes response \<times> Stub" where
  "publish stub args =
     (if length args \<noteq> 4 then (Error InvalidArgument, stub)
      else
        case GetState stub (args ! 0) of
          None \<Rightarrow> (Error NotFound, stub)
        | Some walletAsBytes \<Rightarrow>
            let wallet = Unmarshal walletAsBytes zero_Wallet;
                value = fst (ParseUint (args ! 2) 32);
                wallet = wallet\<lparr>Wallet.Value := Wallet.Value wallet + value\<rparr>;
                wallet = wallet\<lparr>Transfer := (Transfer wallet)\<lparr>FromOrTo := args ! 1\<rparr>\<rparr>;
                wallet = wallet\<lparr>Transfer := (Transfer wallet)\<lparr>TransferInfo.Value := value\<rparr>\<rparr>;
                wallet = wallet\<lparr>Transfer := (Transfer wallet)\<lparr>TxType := ''0''\<rparr>\<rparr>;
                wallet = wallet\<lparr>Transfer := (Transfer wallet)\<lparr>Date := args ! 3\<rparr>\<rparr>;
                walletAsBytes = Marshal wallet;
                (err, stub1) = PutState stub (args ! 0) walletAsBytes
            in if err then (Error WriteFailed, stub1)
               else (Success walletAsBytes, stub1))"

section \<open>transfer\<close>

definition transfer :: "Stub \<Rightarrow> string list \<Rightarrow> string response \<times> Stub" where
  "transfer stub args =
     (if length args \<noteq> 5 then (Error InvalidArgument, stub)
      else
        let fromAsBytes = GetState stub (args ! 0);
            toAsBytes = GetState stub (args ! 1);
            value = fst (ParseUint (args ! 2) 32);
            toType = fst (Atoi (args ! 3));
            toType = toType + 1;
            fromType = Itoa toType
        in case (fromAsBytes, toAsBytes) of
             (Some fromAsBytes, Some toAsBytes) \<Rightarrow>
               let from = Unmarshal fromAsBytes zero_Wallet;
                   to = Unmarshal toAsBytes zero_Wallet
               in if Wallet.Value from < value
                  then (Error (InsufficientBalance (args ! 0)), stub)
                  else
                    let from = from\<lparr>Wallet.Value := Wallet.Value from - value\<rparr>;
                        from = from\<lparr>Transfer := (Transfer from)\<lparr>FromOrTo := args ! 1\<rparr>\<rparr>;
                        from = from\<lparr>Transfer := (Transfer from)\<lparr>TransferInfo.Value := value\<rparr>\<rparr>;
                        from = from\<lparr>Transfer := (Transfer from)\<lparr>TxType := args ! 3\<rparr>\<rparr>;
                        from = from\<lparr>Transfer := (Transfer from)\<lparr>Date := args ! 4\<rparr>\<rparr>;
                        to = to\<lparr>Wallet.Value := Wallet.Value to + value\<rparr>;
                        to = to\<lparr>Transfer := (Transfer to)\<lparr>FromOrTo := args ! 0\<rparr>\<rparr>;
                        to = to\<lparr>Transfer := (Transfer to)\<lparr>TransferInfo.Value := value\<rparr>\<rparr>;
                        to = to\<lparr>Transfer := (Transfer to)\<lparr>TxType := fromType\<rparr>\<rparr>;
                        to = to\<lparr>Transfer := (Transfer to)\<lparr>Date := args ! 4\<rparr>\<rparr>;
                        fromAsBytes = Marshal from;
                        toAsBytes = Marshal to;
                        (err, stub1) = PutState stub (args ! 0) fromAsBytes
                    in if err then (Error WriteFailed, stub1)
                       else
                         let txid = GetTxID stub1;
                             (err, stub2) = PutState stub1 (args ! 1) toAsBytes
                         in if err then (Error WriteFailed, stub2)
                            else (Success txid, stub2)
           | _ \<Rightarrow> (Error NotFound, stub))"

section \<open>get_txList\<close>

record get_History =
  TxId :: string
  Value :: Wallet

text \<open>\<open>json.Unmarshal\<close> on a slice that may be nil: a nil slice is an error and changes nothing.\<close>

definition Unmarshal_slice :: "bytes option \<Rightarrow> Wallet \<Rightarrow> Wallet" where
  "Unmarshal_slice v w = (case v of None \<Rightarrow> w | Some b \<Rightarrow> Unmarshal b w)"

text \<open>
  The loop over the history iterator. \<open>wallet\<close> is the variable declared before the loop:
  it is decoded into at every entry and keeps its content from one entry to the next.
  \<open>hist\<close> is the slice \<open>history\<close> built by \<open>append\<close>.
\<close>

fun get_txList_loop ::
  "(string + KeyModification) list \<Rightarrow> Wallet \<Rightarrow> get_History list \<Rightarrow> string + get_History list" where
  "get_txList_loop [] wallet hist = Inr hist"
| "get_txList_loop (Inl err # rest) wallet hist = Inl err"
| "get_txList_loop (Inr historyData # rest) wallet hist =
     (let wallet = Unmarshal_slice (KeyModification.Value historyData) wallet
      in if KeyModification.Value historyData = None
         then
           let emptyWalletHistory = zero_Wallet
           in get_txList_loop rest wallet
                (hist @ [\<lparr>get_History.TxId = KeyModification.TxId historyData,
                          get_History.Value = emptyWalletHistory\<rparr>])
         else
           let wallet = Unmarshal_slice (KeyModification.Value historyData) wallet
           in get_txList_loop rest wallet
                (hist @ [\<lparr>get_History.TxId = KeyModification.TxId historyData,
                          get_History.Value = wallet\<rparr>]))"

definition get_txList :: "Stub \<Rightarrow> string list \<Rightarrow> get_History list response" where
  "get_txList stub args =
     (if length args \<noteq> 1 then Error InvalidArgument
      else
        case GetHistoryForKey stub (args ! 0) of
          Inl err \<Rightarrow> Error (StoreError err)
        | Inr resultsIterator \<Rightarrow>
            (case get_txList_loop resultsIterator zero_Wallet [] of
               Inl err \<Rightarrow> Error (StoreError err)
             | Inr hist \<Rightarrow> Success hist))"

section \<open>get_account\<close>

text \<open>\<open>fmt.Sprint\<close> of a \<open>uint64\<close> is its decimal numeral.\<close>

definition get_account :: "Stub \<Rightarrow> string list \<Rightarrow> string response" where
  "get_account stub args =
     (if length args \<noteq> 1 then Error InvalidArgument
      else
        case GetState stub (args ! 0) of
          None \<Rightarrow> Error NotFound
        | Some walletAsBytes \<Rightarrow>
            let wallet = Unmarshal walletAsBytes zero_Wallet;
                value = decimal (unat (Wallet.Value wallet))
            in Success value)"

section \<open>Reading a wallet back\<close>

text \<open>
  Every handler reads a wallet the same way: \<open>GetState\<close>, then \<open>json.Unmarshal\<close> into a
  zero \<open>Wallet\<close>, ignoring the decoding error. \<open>read_wallet\<close> is that read; it is what
  \<open>get_account\<close> reports the balance of.
\<close>

definition read_wallet :: "Stub \<Rightarrow> string \<Rightarrow> Wallet option" where
  "read_wallet stub key =
     (case GetState stub key of None \<Rightarrow> None | Some b \<Rightarrow> Some (Unmarshal b zero_Wallet))"

section \<open>Concrete stores\<close>

text \<open>
  \<open>demo_stub\<close> is the store after wallet "1" was created and 10000 published to it by
  "admin", and wallet "2" was created; it accepts every write.
\<close>

definition demo_wallet :: Wallet where
  "demo_wallet =
     \<lparr>Wallet.Value = 10000,
      Transfer = \<lparr>FromOrTo = ''admin'', TransferInfo.Value = 10000, Date = ''20181212'',
                  TxType = ''0''\<rparr>\<rparr>"

definition demo_stub :: Stub where
  "demo_stub =
     \<lparr>state = [''1'' \<mapsto> Marshal demo_wallet, ''2'' \<mapsto> Marshal zero_Wallet],
      refuses = (\<lambda>key v. False), puts = [], txid = ''tx1'', history = (\<lambda>key. Inr [])\<rparr>"

text \<open>\<open>refusing_stub\<close> is \<open>demo_stub\<close> on a store that refuses every write to key "1".\<close>

definition refusing_stub :: Stub where
  "refusing_stub = demo_stub\<lparr>refuses := (\<lambda>key v. key = ''1'')\<rparr>"

text \<open>
  \<open>big_stub\<close> holds wallet "1" with balance 200000000000 and wallet "2" with balance
  4294967295, the largest 32-bit value; it accepts every write.
\<close>

definition big_stub :: Stub where
  "big_stub =
     \<lparr>state = [''1'' \<mapsto> Marshal \<lparr>Wallet.Value = 200000000000, Transfer = zero_TransferInfo\<rparr>,
               ''2'' \<mapsto> Marshal \<lparr>Wallet.Value = 4294967295, Transfer = zero_TransferInfo\<rparr>],
      refuses = (\<lambda>key v. False), puts = [], txid = ''tx9'', history = (\<lambda>key. Inr [])\<rparr>"

text \<open>
  \<open>history_stub\<close> has a key "1" with two historical writes: a wallet of balance 10000,
  then bytes that are not JSON.
\<close>

definition history_stub :: Stub where
  "history_stub =
     \<lparr>state = Map.empty, refuses = (\<lambda>key v. False), puts = [], txid = ''tx3'',
      history = (\<lambda>key. Inr [Inr \<lparr>KeyModification.TxId = ''tx1'',
                                       KeyModification.Value = Some (Marshal demo_wallet)\<rparr>,
                                  Inr \<lparr>KeyModification.TxId = ''tx2'',
                                       KeyModification.Value = Some Malformed\<rparr>])\<rparr>"

section \<open>Facts about the strconv functions\<close>

lemma digit_cases:
  "d < 10 \<Longrightarrow> d = 0 \<or> d = 1 \<or> d = 2 \<or> d = 3 \<or> d = 4 \<or> d = 5 \<or> d = 6 \<or> d = 7 \<or> d = 8 \<or> d = (9::nat)"
  by arith

lemma is_digit_digit_char: "d < 10 \<Longrightarrow> is_digit (digit_char d)"
  using digit_cases [of d] by (auto simp: is_digit_def digit_char_def)

lemma digit_val_digit_char: "d < 10 \<Longrightarrow> digit_val (digit_char d) = d"
  using digit_cases [of d] by (auto simp: digit_val_def digit_char_def)

lemma unat_of_nat64: "n < 2 ^ 64 \<Longrightarrow> unat (of_nat n :: 64 word) = n"
  by (simp add: unat_of_nat)

text \<open>One round of the \<open>ParseUint\<close> loop on a digit that keeps the value within \<open>maxVal\<close>.\<close>

lemma ParseUint_loop_digit:
  assumes "n \<le> unat maxVal" "n = 10 * q + r" "r < 10"
  shows "ParseUint_loop maxVal (of_nat q) (digit_char r # rest) = ParseUint_loop maxVal (of_nat n) rest"
proof -
  have M: "unat maxVal < 2 ^ 64" using unsigned_less [of maxVal] by simp
  have n: "n < 2 ^ 64" using assms(1) M by simp
  have q: "q < 1844674407370955162" using n assms(2) by simp
  have uq: "unat (of_nat q :: 64 word) = q" using q by (simp add: unat_of_nat)
  have un: "unat (of_nat n :: 64 word) = n" using n by (simp add: unat_of_nat)
  have u10: "unat (of_nat q * 10 :: 64 word) = 10 * q"
  proof -
    have "(of_nat q * 10 :: 64 word) = of_nat (10 * q)" by simp
    moreover have "10 * q < 2 ^ 64" using q by simp
    ultimately show ?thesis by (simp only: unat_of_nat64)
  qed
  have e: "(of_nat q * 10 + of_nat r :: 64 word) = of_nat n" using assms(2) by simp
  have c: "\<not> cutoff10 \<le> (of_nat q :: 64 word)"
    using q by (simp add: cutoff10_def word_le_nat_alt uq)
  have "10 * q \<le> n" using assms(2) by arith
  then have a: "\<not> (of_nat n :: 64 word) < of_nat q * 10"
    by (simp add: word_less_nat_alt un u10)
  have b: "\<not> maxVal < (of_nat n :: 64 word)"
    using assms(1) by (simp add: word_less_nat_alt un)
  show ?thesis
    using c a b e by (simp add: is_digit_digit_char digit_val_digit_char assms(3) Let_def)
qed

lemma ParseUint_loop_decimal:
  "n \<le> unat maxVal \<Longrightarrow>
   ParseUint_loop maxVal 0 (decimal n @ rest) = ParseUint_loop maxVal (of_nat n) rest"
proof (induction n arbitrary: rest rule: decimal.induct)
  case (1 n)
  show ?case
  proof (cases "n < 10")
    case True
    have "ParseUint_loop maxVal (of_nat 0) (digit_char n # rest) = ParseUint_loop maxVal (of_nat n) rest"
      by (rule ParseUint_loop_digit) (use True "1.prems" in simp_all)
    then show ?thesis using True by (simp add: decimal.simps [of n])
  next
    case False
    have q: "n div 10 \<le> unat maxVal" using "1.prems" by simp
    have "ParseUint_loop maxVal 0 (decimal (n div 10) @ (digit_char (n mod 10) # rest))
          = ParseUint_loop maxVal (of_nat (n div 10)) (digit_char (n mod 10) # rest)"
      using "1.IH" [OF False q] .
    also have "\<dots> = ParseUint_loop maxVal (of_nat n) rest"
      by (rule ParseUint_loop_digit) (use "1.prems" in simp_all)
    finally show ?thesis using False by (simp add: decimal.simps [of n])
  qed
qed

lemma decimal_not_Nil: "decimal n \<noteq> []"
  by (subst decimal.simps) simp

lemma ParseUint_decimal:
  assumes "n \<le> unat (2 ^ bitSize - 1 :: 64 word)"
  shows "ParseUint (decimal n) bitSize = (of_nat n, None)"
  using ParseUint_loop_decimal [OF assms, of "[]"] by (simp add: ParseUint_def decimal_not_Nil)

text \<open>Every amount below \<open>2 ^ 32\<close>, written in decimal, parses to itself without error.\<close>

lemma ParseUint_decimal_32: "n < 2 ^ 32 \<Longrightarrow> ParseUint (decimal n) 32 = (of_nat n, None)"
  by (rule ParseUint_decimal) simp

lemma ParseUint_decimal_64: "n < 2 ^ 64 \<Longrightarrow> ParseUint (decimal n) 64 = (of_nat n, None)"
  by (rule ParseUint_decimal) simp

text \<open>What \<open>ParseUint\<close> returns with each error: 0 on a syntax error, \<open>maxVal\<close> on a range error.\<close>

lemma ParseUint_loop_error_value:
  "(snd (ParseUint_loop maxVal n s) = Some ErrSyntax \<longrightarrow> fst (ParseUint_loop maxVal n s) = 0) \<and>
   (snd (ParseUint_loop maxVal n s) = Some ErrRange \<longrightarrow> fst (ParseUint_loop maxVal n s) = maxVal)"
  by (induction maxVal n s rule: ParseUint_loop.induct) (simp_all add: Let_def)

lemma ParseUint_error_value:
  "(snd (ParseUint s bitSize) = Some ErrSyntax \<longrightarrow> fst (ParseUint s bitSize) = 0) \<and>
   (snd (ParseUint s bitSize) = Some ErrRange \<longrightarrow> fst (ParseUint s bitSize) = 2 ^ bitSize - 1)"
  using ParseUint_loop_error_value [of "2 ^ bitSize - 1" 0 s] by (simp add: ParseUint_def)

lemma Atoi_loop_decimal:
  "Atoi_loop 0 (decimal n @ rest) = Atoi_loop (of_nat n) rest"
proof (induction n arbitrary: rest rule: decimal.induct)
  case (1 n)
  show ?case
  proof (cases "n < 10")
    case True
    then show ?thesis
      by (simp add: decimal.simps [of n] is_digit_digit_char digit_val_digit_char)
  next
    case False
    have "(of_nat n :: 64 word) = of_nat (n div 10 * 10 + n mod 10)"
      by simp
    also have "\<dots> = of_nat (n div 10) * 10 + of_nat (n mod 10)"
      by (simp only: of_nat_add of_nat_mult of_nat_numeral)
    finally have e: "(of_nat (n div 10) * 10 + of_nat (n mod 10) :: 64 word) = of_nat n"
      by simp
    have "Atoi_loop 0 (decimal (n div 10) @ (digit_char (n mod 10) # rest))
          = Atoi_loop (of_nat (n div 10)) (digit_char (n mod 10) # rest)"
      using "1.IH" [OF False] .
    also have "\<dots> = Atoi_loop (of_nat n) rest"
      using e by (simp add: is_digit_digit_char digit_val_digit_char)
    finally show ?thesis using False by (simp add: decimal.simps [of n])
  qed
qed

lemma is_digit_hd_decimal: "is_digit (hd (decimal n))"
proof (induction n rule: decimal.induct)
  case (1 n)
  show ?case
  proof (cases "n < 10")
    case True
    then show ?thesis by (simp add: decimal.simps [of n] is_digit_digit_char)
  next
    case False
    then show ?thesis using "1.IH" by (simp add: decimal.simps [of n] decimal_not_Nil)
  qed
qed

lemma hd_decimal_no_sign: "hd (decimal n) \<noteq> CHR ''-''" "hd (decimal n) \<noteq> CHR ''+''"
  using is_digit_hd_decimal [of n] by (auto simp: is_digit_def)

lemma Atoi_decimal:
  assumes "n < 2 ^ 63"
  shows "Atoi (decimal n) = (of_nat n, None)"
proof (cases "length (decimal n) < 19")
  case True
  then show ?thesis
    using Atoi_loop_decimal [of n "[]"]
    by (simp add: Atoi_def decimal_not_Nil hd_decimal_no_sign)
next
  case False
  have n: "n < 2 ^ 64" using assms by simp
  have u: "unat (of_nat n :: 64 word) = n" using n by (simp add: unat_of_nat)
  have c: "\<not> (2 ^ 63 :: 64 word) \<le> of_nat n"
    using assms by (simp add: word_le_nat_alt u)
  show ?thesis
    using False c
    by (simp add: Atoi_def ParseInt_def decimal_not_Nil hd_decimal_no_sign ParseUint_decimal_64 [OF n])
qed

lemma Atoi_minus_decimal:
  assumes "n \<le> 2 ^ 63"
  shows "Atoi (CHR ''-'' # decimal n) = (- of_nat n, None)"
proof (cases "length (decimal n) < 18")
  case True
  then show ?thesis
    using Atoi_loop_decimal [of n "[]"]
    by (simp add: Atoi_def decimal_not_Nil)
next
  case False
  have n: "n < 2 ^ 64" using assms by simp
  have u: "unat (of_nat n :: 64 word) = n" using n by (simp add: unat_of_nat)
  have c: "\<not> (2 ^ 63 :: 64 word) < of_nat n"
    using assms by (simp add: word_less_nat_alt u)
  show ?thesis
    using False c by (simp add: Atoi_def ParseInt_def decimal_not_Nil ParseUint_decimal_64 [OF n])
qed

text \<open>\<open>Atoi\<close> reads back every \<open>int\<close> that \<open>Itoa\<close> writes.\<close>

lemma Atoi_Itoa: "Atoi (Itoa i) = (i, None)"
proof (cases "sint i < 0")
  case True
  have b: "- (2 ^ 63) \<le> sint i" using sint_ge [of i] by simp
  have n: "nat (- sint i) \<le> 2 ^ 63" using b by simp
  have "(of_nat (nat (- sint i)) :: 64 word) = of_int (- sint i)"
    using True by (simp add: of_nat_nat)
  then have "- (of_nat (nat (- sint i)) :: 64 word) = i" by simp
  then show ?thesis using True Atoi_minus_decimal [OF n] by (simp add: Itoa_def)
next
  case False
  have b: "sint i < 2 ^ 63" using sint_lt [of i] by simp
  have n: "nat (sint i) < 2 ^ 63" using b False by simp
  have "(of_nat (nat (sint i)) :: 64 word) = of_int (sint i)"
    using False by (simp add: of_nat_nat)
  then have "(of_nat (nat (sint i)) :: 64 word) = i" by simp
  then show ?thesis using False Atoi_decimal [OF n] by (simp add: Itoa_def)
qed

text \<open>
  Numbers that do not fit: one round of the \<open>ParseUint\<close> loop on a digit that takes the
  value beyond \<open>maxVal\<close> ends with \<open>maxVal\<close> and a range error, and so does the
  decimal numeral of every number above \<open>maxVal\<close>.
\<close>

lemma ParseUint_loop_range:
  assumes "unat maxVal < 10 * q + r" "r < 10" "q \<le> unat maxVal"
  shows "ParseUint_loop maxVal (of_nat q) (digit_char r # rest) = (maxVal, Some ErrRange)"
proof -
  have M: "unat maxVal < 2 ^ 64" using unsigned_less [of maxVal] by simp
  have q: "q < 2 ^ 64" using assms(3) M by simp
  have uq: "unat (of_nat q :: 64 word) = q" using q by (simp add: unat_of_nat)
  show ?thesis
  proof (cases "cutoff10 \<le> (of_nat q :: 64 word)")
    case True
    then show ?thesis by (simp add: is_digit_digit_char assms(2))
  next
    case False
    then have q': "q < 1844674407370955162"
      by (simp add: cutoff10_def word_le_nat_alt uq)
    have u10: "unat (of_nat q * 10 :: 64 word) = 10 * q"
    proof -
      have "(of_nat q * 10 :: 64 word) = of_nat (10 * q)" by simp
      moreover have "10 * q < 2 ^ 64" using q' by simp
      ultimately show ?thesis by (simp only: unat_of_nat64)
    qed
    have ur: "unat (of_nat r :: 64 word) = r" using assms(2) by (simp add: unat_of_nat)
    have "unat (of_nat q * 10 + of_nat r :: 64 word) =
          (unat (of_nat q * 10 :: 64 word) + unat (of_nat r :: 64 word)) mod 2 ^ LENGTH(64)"
      by (rule unat_word_ariths(1))
    then have u1: "unat (of_nat q * 10 + of_nat r :: 64 word) = (10 * q + r) mod 2 ^ 64"
      by (simp only: u10 ur) simp
    have "(of_nat q * 10 + of_nat r :: 64 word) < of_nat q * 10 \<or>
          maxVal < (of_nat q * 10 + of_nat r :: 64 word)"
    proof (cases "10 * q + r < 2 ^ 64")
      case True
      then have "unat (of_nat q * 10 + of_nat r :: 64 word) = 10 * q + r"
        using u1 by simp
      then show ?thesis using assms(1) by (simp add: word_less_nat_alt)
    next
      case False
      then have "(10 * q + r) mod 2 ^ 64 = 10 * q + r - 2 ^ 64"
        using q' assms(2) by (simp add: mod_if)
      then have "unat (of_nat q * 10 + of_nat r :: 64 word) < 10 * q"
        using u1 False q' assms(2) by simp
      then show ?thesis by (simp add: word_less_nat_alt u10)
    qed
    then show ?thesis
      using False by (auto simp: is_digit_digit_char digit_val_digit_char assms(2) Let_def)
  qed
qed

lemma ParseUint_loop_decimal_range:
  "unat maxVal < n \<Longrightarrow>
   ParseUint_loop maxVal 0 (decimal n @ rest) = (maxVal, Some ErrRange)"
proof (induction n arbitrary: rest rule: decimal.induct)
  case (1 n)
  show ?case
  proof (cases "n < 10")
    case True
    have "ParseUint_loop maxVal (of_nat 0) (digit_char n # rest) = (maxVal, Some ErrRange)"
      by (rule ParseUint_loop_range) (use True "1.prems" in simp_all)
    then show ?thesis using True by (simp add: decimal.simps [of n])
  next
    case False
    show ?thesis
    proof (cases "unat maxVal < n div 10")
      case True
      then show ?thesis
        using "1.IH" [OF False True] False by (simp add: decimal.simps [of n])
    next
      case le: False
      then have q: "n div 10 \<le> unat maxVal" by simp
      have "ParseUint_loop maxVal 0 (decimal (n div 10) @ (digit_char (n mod 10) # rest))
            = ParseUint_loop maxVal (of_nat (n div 10)) (digit_char (n mod 10) # rest)"
        by (rule ParseUint_loop_decimal [OF q])
      also have "\<dots> = (maxVal, Some ErrRange)"
        by (rule ParseUint_loop_range) (use "1.prems" q in simp_all)
      finally show ?thesis using False by (simp add: decimal.simps [of n])
    qed
  qed
qed

lemma ParseUint_decimal_range_32:
  "2 ^ 32 \<le> n \<Longrightarrow> ParseUint (decimal n) 32 = (4294967295, Some ErrRange)"
  using ParseUint_loop_decimal_range [of "2 ^ 32 - 1" n "[]"]
  by (simp add: ParseUint_def decimal_not_Nil)


section \<open>Facts shared by the claims\<close>

text \<open>A string of bytes below 80 is written and read back by encoding/json as it is.\<close>

lemma string_from_ascii:
  "list_all (\<lambda>c. (of_char c :: nat) < 128) s \<Longrightarrow> string_from 0 s = s"
  by (induction s) (simp_all add: DecodeRuneInString_size_def)

lemma json_string_ascii:
  "list_all (\<lambda>c. (of_char c :: nat) < 128) s \<Longrightarrow> json_string s = s"
  by (simp add: json_string_def string_from_ascii)

lemma ascii_digit_char: "d < 10 \<Longrightarrow> (of_char (digit_char d) :: nat) < 128"
  using digit_cases [of d] by (auto simp: digit_char_def)

lemma ascii_decimal: "list_all (\<lambda>c. (of_char c :: nat) < 128) (decimal n)"
proof (induction n rule: decimal.induct)
  case (1 n)
  show ?case
  proof (cases "n < 10")
    case True
    then show ?thesis by (simp add: decimal.simps [of n] ascii_digit_char)
  next
    case False
    then show ?thesis using "1.IH" by (simp add: decimal.simps [of n] ascii_digit_char)
  qed
qed

lemma json_string_Itoa: "json_string (Itoa i) = Itoa i"
  by (rule json_string_ascii) (simp add: Itoa_def ascii_decimal)

lemma Unmarshal_Marshal:
  "Unmarshal (Marshal w) w0 =
     \<lparr>Wallet.Value = Wallet.Value w,
      Transfer = \<lparr>FromOrTo = json_string (FromOrTo (Transfer w)),
                  TransferInfo.Value = TransferInfo.Value (Transfer w),
                  Date = json_string (Date (Transfer w)),
                  TxType = json_string (TxType (Transfer w))\<rparr>\<rparr>"
  by (simp add: Marshal_def Unmarshal_TransferInfo_def)

lemma Unmarshal_Marshal_Value: "Wallet.Value (Unmarshal (Marshal w) w0) = Wallet.Value w"
  by (simp add: Unmarshal_Marshal)

lemma Unmarshal_Marshal_demo: "Unmarshal (Marshal demo_wallet) w0 = demo_wallet"
  by (simp add: Unmarshal_Marshal demo_wallet_def json_string_ascii)

lemmas eval_strconv = ParseUint_def is_digit_def digit_val_def cutoff10_def Atoi_def ParseInt_def
  Itoa_def decimal.simps digit_char_def word_le_nat_alt word_less_nat_alt

lemmas eval_json = json_string_def DecodeRuneInString_size_def in_range_def

lemmas eval_stub = GetState_def PutState_def GetTxID_def read_wallet_def demo_stub_def
  demo_wallet_def Marshal_def zero_Wallet_def zero_TransferInfo_def Unmarshal_TransferInfo_def Let_def
  eval_json

lemma get_account_read_wallet:
  "get_account stub [key] =
     (case read_wallet stub key of
        None \<Rightarrow> Error NotFound
      | Some w \<Rightarrow> Success (decimal (unat (Wallet.Value w))))"
  by (simp add: get_account_def read_wallet_def Let_def split: option.splits)

lemma Wallet_all_fields:
  "w\<lparr>Wallet.Value := x,
     Transfer := (Transfer w)\<lparr>FromOrTo := a, TransferInfo.Value := v, TxType := t, Date := d\<rparr>\<rparr> =
   \<lparr>Wallet.Value = x,
    Transfer = \<lparr>FromOrTo = a, TransferInfo.Value = v, Date = d, TxType = t\<rparr>\<rparr>"
  by (cases w, cases "Transfer w") simp

section \<open>Initialization\<close>

text \<open>
  Claim C10. \<open>init_wallet\<close> with exactly one argument never looks at the store: whatever
  is stored under the identifier, it issues one write of the zero wallet (balance 0, empty
  movement record) for it. When the store accepts the write, the response is that wallet
  and the identifier reads back as the zero wallet, so a balance held before is gone.
\<close>

theorem C10_init_wallet_writes_zero_wallet:
  "puts (snd (init_wallet stub [key])) = puts stub @ [(key, Marshal zero_Wallet)] \<and>
   (\<not> refuses stub key (Marshal zero_Wallet) \<longrightarrow>
      fst (init_wallet stub [key]) = Success (Marshal zero_Wallet) \<and>
      read_wallet (snd (init_wallet stub [key])) key =
        Some \<lparr>Wallet.Value = 0,
              Transfer = \<lparr>FromOrTo = [], TransferInfo.Value = 0, Date = [], TxType = []\<rparr>\<rparr>)"
  by (simp add: init_wallet_def PutState_def GetState_def read_wallet_def Let_def
      Unmarshal_Marshal zero_Wallet_def zero_TransferInfo_def json_string_def)

text \<open>Wallet "1" holds 10000; after \<open>init_wallet\<close> on "1" it holds 0.\<close>

theorem C10_witness:
  "map_option Wallet.Value (read_wallet demo_stub ''1'') = Some 10000 \<and>
   \<not> refuses demo_stub ''1'' (Marshal zero_Wallet) \<and>
   map_option Wallet.Value (read_wallet (snd (init_wallet demo_stub [''1''])) ''1'') = Some 0"
  using C10_init_wallet_writes_zero_wallet [of demo_stub "''1''"]
  by (simp add: eval_stub)

section \<open>Publish\<close>

text \<open>
  Claim C8. \<open>publish\<close> on an identifier with no record in the store answers NotFound
  and returns the stub as it was: no \<open>PutState\<close> call was made, for any key.
\<close>

theorem C8_publish_absent_wallet:
  "GetState stub key = None \<Longrightarrow> publish stub [key, issuer, amt, date] = (Error NotFound, stub)"
  by (simp add: publish_def)

theorem C8_witness:
  "GetState demo_stub ''3'' = None \<and>
   publish demo_stub [''3'', ''admin'', ''10000'', ''20181212''] = (Error NotFound, demo_stub)"
  using C8_publish_absent_wallet [of demo_stub "''3''" "''admin''" "''10000''" "''20181212''"]
  by (simp add: GetState_def demo_stub_def)

text \<open>
  Claim C7 says that a publish with a parsable amount adds exactly the amount and records
  the issuer. On wallet "1" holding 10000, the amount "5000000000" is read at 32 bits and
  published as 4294967295, and the issuer made of the single byte FF is stored as the
  three bytes EF BF BD: the wallet reads back with balance 4294977295, not 5000010000,
  and with another counterparty than the issuer.
\<close>

theorem C7_counterexample:
  "read_wallet (snd (publish demo_stub [''1'', [CHR 0xFF], ''5000000000'', ''20181212''])) ''1'' =
     Some \<lparr>Wallet.Value = 4294977295,
           Transfer = \<lparr>FromOrTo = [CHR 0xEF, CHR 0xBF, CHR 0xBD],
                       TransferInfo.Value = 4294967295, Date = ''20181212'', TxType = ''0''\<rparr>\<rparr> \<and>
   read_wallet (snd (publish demo_stub [''1'', [CHR 0xFF], ''5000000000'', ''20181212''])) ''1'' \<noteq>
     Some \<lparr>Wallet.Value = 10000 + 5000000000,
           Transfer = \<lparr>FromOrTo = [CHR 0xFF],
                       TransferInfo.Value = 5000000000, Date = ''20181212'', TxType = ''0''\<rparr>\<rparr>"
  by (simp add: publish_def eval_stub eval_strconv)

text \<open>
  Claim C7, as the code has it. \<open>publish\<close> on a wallet that exists, with the amount \<open>n\<close>
  written in decimal, computes the wallet \<open>w\<close> whose balance is the old balance plus
  \<open>n\<close> when \<open>n\<close> is below \<open>2 ^ 32\<close> and plus 4294967295 when it is not (the \<open>uint64\<close>
  addition of the source), and whose movement record is the issuer, that amount, the date
  and the code "0". If the store takes the write, \<open>Marshal w\<close> is the response, and the
  identifier reads back as \<open>w\<close> with the issuer and the date as encoding/json stores
  them, each byte that starts no well-formed UTF-8 sequence replaced by EF BF BD; if
  not, the answer is WriteFailed and the state is as before. For \<open>n\<close> below \<open>2 ^ 32\<close>
  with old balance plus \<open>n\<close> fitting 64 bits, the new balance is their sum as numbers.
\<close>

theorem C7_publish_effect:
  assumes "GetState stub key = Some b"
    and "publish stub [key, issuer, decimal n, date] = (r, stub')"
  shows "\<exists>v w. v = (if n < 2 ^ 32 then of_nat n else 4294967295) \<and>
             w = \<lparr>Wallet.Value = Wallet.Value (Unmarshal b zero_Wallet) + v,
                   Transfer = \<lparr>FromOrTo = issuer, TransferInfo.Value = v, Date = date,
                               TxType = ''0''\<rparr>\<rparr> \<and>
             (if refuses stub key (Marshal w)
              then r = Error WriteFailed \<and> state stub' = state stub
              else r = Success (Marshal w) \<and>
                   read_wallet stub' key =
                     Some \<lparr>Wallet.Value = Wallet.Value (Unmarshal b zero_Wallet) + v,
                           Transfer = \<lparr>FromOrTo = json_string issuer, TransferInfo.Value = v,
                                       Date = json_string date, TxType = ''0''\<rparr>\<rparr>) \<and>
             (n < 2 ^ 32 \<and> unat (Wallet.Value (Unmarshal b zero_Wallet)) + n < 2 ^ 64 \<longrightarrow>
                unat (Wallet.Value w) = unat (Wallet.Value (Unmarshal b zero_Wallet)) + n)"
proof -
  have p: "fst (ParseUint (decimal n) 32) = (if n < 2 ^ 32 then of_nat n else 4294967295)"
    by (simp add: ParseUint_decimal_32 ParseUint_decimal_range_32)
  have u: "n < 2 ^ 32 \<Longrightarrow> unat (of_nat n :: 64 word) = n"
    by (simp add: unat_of_nat)
  show ?thesis
    using assms p u
    by (auto simp: publish_def PutState_def GetState_def read_wallet_def Let_def Unmarshal_Marshal
        Wallet_all_fields unat_word_ariths eval_json split: if_splits)
qed

text \<open>
  The scenario of the specification: 10000 published by "admin" to a new wallet.
\<close>

theorem C7_witness:
  "GetState (snd (init_wallet demo_stub [''7''])) ''7'' = Some (Marshal zero_Wallet) \<and>
   decimal 10000 = ''10000'' \<and>
   read_wallet (snd (publish (snd (init_wallet demo_stub [''7'']))
                       [''7'', ''admin'', ''10000'', ''20181212''])) ''7'' =
     Some \<lparr>Wallet.Value = 10000,
           Transfer = \<lparr>FromOrTo = ''admin'', TransferInfo.Value = 10000, Date = ''20181212'',
                       TxType = ''0''\<rparr>\<rparr>"
proof -
  have g: "GetState (snd (init_wallet demo_stub [''7''])) ''7'' = Some (Marshal zero_Wallet)"
    by (simp add: init_wallet_def GetState_def PutState_def demo_stub_def Let_def zero_Wallet_def)
  have d: "decimal 10000 = ''10000''"
    by (simp add: decimal.simps digit_char_def)
  have n: "\<not> refuses (snd (init_wallet demo_stub [''7''])) ''7'' x" for x
    by (simp add: init_wallet_def PutState_def demo_stub_def Let_def)
  have j: "json_string ''admin'' = ''admin''" "json_string ''20181212'' = ''20181212''"
    by (simp_all add: eval_json)
  show ?thesis
    using C7_publish_effect [where n = 10000 and issuer = "''admin''" and date = "''20181212''",
        OF g surjective_pairing] g d n j
    by (simp add: Unmarshal_Marshal_Value zero_Wallet_def)
qed

text \<open>
  Claim C6 says that \<open>publish\<close> answers InvalidArgument when the amount string does not
  parse. It does not: on wallet "1" holding 10000, the amount "abc" is a syntax error of
  \<open>ParseUint\<close>, and the publish succeeds with amount 0.
\<close>

theorem C6_counterexample:
  "snd (ParseUint ''abc'' 32) = Some ErrSyntax \<and>
   fst (publish demo_stub [''1'', ''admin'', ''abc'', ''20181212'']) \<noteq> Error InvalidArgument \<and>
   fst (publish demo_stub [''1'', ''admin'', ''abc'', ''20181212'']) =
     Success (Marshal \<lparr>Wallet.Value = 10000,
                Transfer = \<lparr>FromOrTo = ''admin'', TransferInfo.Value = 0, Date = ''20181212'',
                            TxType = ''0''\<rparr>\<rparr>)"
  by (simp add: publish_def eval_stub eval_strconv)

text \<open>
  Claim C6, as the code has it. \<open>publish\<close> drops the error of \<open>ParseUint\<close>: it answers
  InvalidArgument exactly when it is not given four arguments, and on a wallet that exists
  an amount string that does not parse is used as the value \<open>ParseUint\<close> returns with
  its error, 0 for a syntax error and 4294967295 for a number that does not fit 32 bits.
  The publish then goes on as for any amount.
\<close>

theorem C6_publish_ignores_parse_error:
  "((fst (publish stub args) = Error InvalidArgument) = (length args \<noteq> 4)) \<and>
   (GetState stub key = Some b \<and> snd (ParseUint amt 32) = Some e \<longrightarrow>
      (\<exists>v w. v = (case e of ErrSyntax \<Rightarrow> 0 | ErrRange \<Rightarrow> 4294967295) \<and>
             w = \<lparr>Wallet.Value = Wallet.Value (Unmarshal b zero_Wallet) + v,
                   Transfer = \<lparr>FromOrTo = issuer, TransferInfo.Value = v, Date = date,
                               TxType = ''0''\<rparr>\<rparr> \<and>
             publish stub [key, issuer, amt, date] =
               (if refuses stub key (Marshal w)
                then (Error WriteFailed, stub\<lparr>puts := puts stub @ [(key, Marshal w)]\<rparr>)
                else (Success (Marshal w),
                      stub\<lparr>state := (state stub)(key \<mapsto> Marshal w),
                           puts := puts stub @ [(key, Marshal w)]\<rparr>))))"
proof -
  have a: "(fst (publish stub args) = Error InvalidArgument) = (length args \<noteq> 4)"
    by (simp add: publish_def PutState_def Let_def split: option.splits)
  have b: "publish stub [key, issuer, amt, date] =
               (if refuses stub key (Marshal w)
                then (Error WriteFailed, stub\<lparr>puts := puts stub @ [(key, Marshal w)]\<rparr>)
                else (Success (Marshal w),
                      stub\<lparr>state := (state stub)(key \<mapsto> Marshal w),
                           puts := puts stub @ [(key, Marshal w)]\<rparr>))"
    if "GetState stub key = Some b" "snd (ParseUint amt 32) = Some e"
      "v = (case e of ErrSyntax \<Rightarrow> 0 | ErrRange \<Rightarrow> 4294967295)"
      "w = \<lparr>Wallet.Value = Wallet.Value (Unmarshal b zero_Wallet) + v,
                   Transfer = \<lparr>FromOrTo = issuer, TransferInfo.Value = v, Date = date,
                               TxType = ''0''\<rparr>\<rparr>" for v w
  proof -
    have "fst (ParseUint amt 32) = v"
      using ParseUint_error_value [of amt 32] that(2,3) by (cases e) simp_all
    then show ?thesis
      using that(1) unfolding that(4)
      by (simp add: publish_def PutState_def Let_def Wallet_all_fields)
  qed
  show ?thesis using a b by blast
qed

text \<open>
  On wallet "1" holding 10000: the amount "12a" is a syntax error and is published as 0,
  the amount "4294967296" is out of range and is published as 4294967295.
\<close>

theorem C6_witness:
  "GetState demo_stub ''1'' = Some (Marshal demo_wallet) \<and>
   snd (ParseUint ''12a'' 32) = Some ErrSyntax \<and>
   fst (publish demo_stub [''1'', ''admin'', ''12a'', ''20181212'']) =
     Success (Marshal \<lparr>Wallet.Value = 10000,
                Transfer = \<lparr>FromOrTo = ''admin'', TransferInfo.Value = 0,
                            Date = ''20181212'', TxType = ''0''\<rparr>\<rparr>) \<and>
   snd (ParseUint ''4294967296'' 32) = Some ErrRange \<and>
   fst (publish demo_stub [''1'', ''admin'', ''4294967296'', ''20181212'']) =
     Success (Marshal \<lparr>Wallet.Value = 4294977295,
                Transfer = \<lparr>FromOrTo = ''admin'', TransferInfo.Value = 4294967295,
                            Date = ''20181212'', TxType = ''0''\<rparr>\<rparr>)"
proof -
  have g: "GetState demo_stub ''1'' = Some (Marshal demo_wallet)"
    by (simp add: GetState_def demo_stub_def)
  have p: "snd (ParseUint ''4294967296'' 32) = Some ErrRange"
    "snd (ParseUint ''12a'' 32) = Some ErrSyntax"
    by (simp_all add: eval_strconv)
  have r: "\<not> refuses demo_stub ''1'' x" for x
    by (simp add: demo_stub_def)
  show ?thesis
    using C6_publish_ignores_parse_error [of demo_stub "[]" "''1''" "Marshal demo_wallet"
        "''4294967296''" ErrRange "''admin''" "''20181212''"]
      C6_publish_ignores_parse_error [of demo_stub "[]" "''1''" "Marshal demo_wallet"
        "''12a''" ErrSyntax "''admin''" "''20181212''"] g p r
    by (simp add: Unmarshal_Marshal demo_wallet_def)
qed

section \<open>Transfer\<close>

text \<open>
  The three ways through \<open>transfer\<close> with five arguments: a wallet is missing; the source
  balance is below the amount; both wallets are rewritten and put, the source first.
\<close>

lemma transfer_early:
  "GetState stub src = None \<or> GetState stub dst = None \<Longrightarrow>
   transfer stub [src, dst, amt, code, date] = (Error NotFound, stub)"
  by (auto simp: transfer_def Let_def split: option.splits)

lemma transfer_insufficient:
  "GetState stub src = Some fb \<Longrightarrow> GetState stub dst = Some tb \<Longrightarrow>
   Wallet.Value (Unmarshal fb zero_Wallet) < fst (ParseUint amt 32) \<Longrightarrow>
   transfer stub [src, dst, amt, code, date] = (Error (InsufficientBalance src), stub)"
  by (simp add: transfer_def Let_def)

lemma transfer_writes:
  assumes "GetState stub src = Some fb" and "GetState stub dst = Some tb"
    and "\<not> Wallet.Value (Unmarshal fb zero_Wallet) < fst (ParseUint amt 32)"
    and "fw = \<lparr>Wallet.Value = Wallet.Value (Unmarshal fb zero_Wallet) - fst (ParseUint amt 32),
               Transfer = \<lparr>FromOrTo = dst, TransferInfo.Value = fst (ParseUint amt 32),
                           Date = date, TxType = code\<rparr>\<rparr>"
    and "tw = \<lparr>Wallet.Value = Wallet.Value (Unmarshal tb zero_Wallet) + fst (ParseUint amt 32),
               Transfer = \<lparr>FromOrTo = src, TransferInfo.Value = fst (ParseUint amt 32),
                           Date = date, TxType = Itoa (fst (Atoi code) + 1)\<rparr>\<rparr>"
  shows "transfer stub [src, dst, amt, code, date] =
    (if refuses stub src (Marshal fw)
     then (Error WriteFailed, stub\<lparr>puts := puts stub @ [(src, Marshal fw)]\<rparr>)
     else if refuses stub dst (Marshal tw)
     then (Error WriteFailed,
           stub\<lparr>state := (state stub)(src \<mapsto> Marshal fw),
                puts := puts stub @ [(src, Marshal fw), (dst, Marshal tw)]\<rparr>)
     else (Success (txid stub),
           stub\<lparr>state := (state stub)(src \<mapsto> Marshal fw, dst \<mapsto> Marshal tw),
                puts := puts stub @ [(src, Marshal fw), (dst, Marshal tw)]\<rparr>))"
  using assms(1-3) unfolding assms(4,5)
  by (simp add: transfer_def PutState_def GetState_def GetTxID_def Let_def Wallet_all_fields)

text \<open>
  Claim C3 says that \<open>transfer\<close> answers InsufficientBalance whenever the source balance
  is below the requested amount. Wallet "2" of \<open>big_stub\<close> holds 4294967295; a transfer
  of 99999999999 from it to wallet "1" is read at 32 bits as 4294967295 and succeeds.
\<close>

theorem C3_counterexample:
  "map_option (unat \<circ> Wallet.Value) (read_wallet big_stub ''2'') = Some 4294967295 \<and>
   (4294967295 :: nat) < 99999999999 \<and>
   decimal 99999999999 = ''99999999999'' \<and>
   fst (transfer big_stub [''2'', ''1'', ''99999999999'', ''3'', ''20181212'']) = Success ''tx9'' \<and>
   fst (transfer big_stub [''2'', ''1'', ''99999999999'', ''3'', ''20181212'']) \<noteq>
     Error (InsufficientBalance ''2'')"
proof -
  have g: "GetState big_stub ''2'' =
             Some (Marshal \<lparr>Wallet.Value = 4294967295, Transfer = zero_TransferInfo\<rparr>)"
    "GetState big_stub ''1'' =
             Some (Marshal \<lparr>Wallet.Value = 200000000000, Transfer = zero_TransferInfo\<rparr>)"
    by (simp_all add: GetState_def big_stub_def)
  have v: "fst (ParseUint ''99999999999'' 32) = 4294967295"
    by (simp add: eval_strconv)
  have l: "\<not> Wallet.Value (Unmarshal (Marshal \<lparr>Wallet.Value = 4294967295,
               Transfer = zero_TransferInfo\<rparr>) zero_Wallet) < fst (ParseUint ''99999999999'' 32)"
    by (simp add: v Unmarshal_Marshal_Value)
  have d: "decimal 99999999999 = ''99999999999''"
    by (simp add: decimal.simps digit_char_def)
  have r: "refuses big_stub key x = False" "txid big_stub = ''tx9''" for key x
    by (simp_all add: big_stub_def)
  show ?thesis
    unfolding transfer_writes [OF g l refl refl]
    by (simp add: d r read_wallet_def g Unmarshal_Marshal_Value)
qed

text \<open>
  Claim C3, as the code has it. With both wallets in the store and the amount \<open>n\<close> written
  in decimal, \<open>transfer\<close> answers InsufficientBalance exactly when the decoded source
  balance is below \<open>n\<close>, for \<open>n\<close> below \<open>2 ^ 32\<close>, and exactly when it is below
  4294967295 for any larger \<open>n\<close>. Whenever it answers InsufficientBalance, for any amount
  string, both wallets were found, the error names the source, and the stub is returned as
  it was: no \<open>PutState\<close> call, no change of state.
\<close>

theorem C3_insufficient_balance:
  "(GetState stub src = Some fb \<and> GetState stub dst = Some tb \<longrightarrow>
      (fst (transfer stub [src, dst, decimal n, code, date]) = Error (InsufficientBalance src)) =
      (unat (Wallet.Value (Unmarshal fb zero_Wallet)) < (if n < 2 ^ 32 then n else 4294967295))) \<and>
   (fst (transfer stub [src, dst, amt, code, date]) = Error (InsufficientBalance k) \<longrightarrow>
      snd (transfer stub [src, dst, amt, code, date]) = stub \<and> k = src \<and>
      GetState stub src \<noteq> None \<and> GetState stub dst \<noteq> None)"
proof -
  have a: "(fst (transfer stub [src, dst, decimal n, code, date]) = Error (InsufficientBalance src)) =
      (unat (Wallet.Value (Unmarshal fb zero_Wallet)) < (if n < 2 ^ 32 then n else 4294967295))"
    if f: "GetState stub src = Some fb" and t: "GetState stub dst = Some tb"
  proof -
    have p: "unat (fst (ParseUint (decimal n) 32)) = (if n < 2 ^ 32 then n else 4294967295)"
      by (simp add: ParseUint_decimal_32 ParseUint_decimal_range_32 unat_of_nat)
    show ?thesis
    proof (cases "Wallet.Value (Unmarshal fb zero_Wallet) < fst (ParseUint (decimal n) 32)")
      case True
      show ?thesis
        unfolding transfer_insufficient [OF f t True] using True p
        by (simp add: word_less_nat_alt)
    next
      case False
      show ?thesis
        unfolding transfer_writes [OF f t False refl refl] using False p
        by (simp add: word_less_nat_alt)
    qed
  qed
  have b: "snd (transfer stub [src, dst, amt, code, date]) = stub \<and> k = src \<and>
      GetState stub src \<noteq> None \<and> GetState stub dst \<noteq> None"
    if e: "fst (transfer stub [src, dst, amt, code, date]) = Error (InsufficientBalance k)"
  proof (cases "GetState stub src")
    case None
    then show ?thesis using e by (simp add: transfer_early)
  next
    case (Some fb')
    note f = this
    show ?thesis
    proof (cases "GetState stub dst")
      case None
      then show ?thesis using e by (simp add: transfer_early)
    next
      case (Some tb')
      show ?thesis
      proof (cases "Wallet.Value (Unmarshal fb' zero_Wallet) < fst (ParseUint amt 32)")
        case True
        show ?thesis
          using e f Some unfolding transfer_insufficient [OF f Some True] by simp
      next
        case False
        show ?thesis
          using e unfolding transfer_writes [OF f Some False refl refl]
          by (simp split: if_splits)
      qed
    qed
  qed
  show ?thesis using a b by blast
qed

text \<open>Wallet "1" holds 10000; a transfer of 20000 from it is refused and writes nothing.\<close>

theorem C3_witness:
  "GetState demo_stub ''1'' = Some (Marshal demo_wallet) \<and>
   GetState demo_stub ''2'' = Some (Marshal zero_Wallet) \<and>
   decimal 20000 = ''20000'' \<and>
   unat (Wallet.Value (Unmarshal (Marshal demo_wallet) zero_Wallet)) < 20000 \<and>
   transfer demo_stub [''1'', ''2'', ''20000'', ''3'', ''20181212''] =
     (Error (InsufficientBalance ''1''), demo_stub)"
proof -
  have g: "GetState demo_stub ''1'' = Some (Marshal demo_wallet)"
    "GetState demo_stub ''2'' = Some (Marshal zero_Wallet)"
    by (simp_all add: GetState_def demo_stub_def)
  have d: "decimal 20000 = ''20000''"
    by (simp add: decimal.simps digit_char_def)
  have l: "unat (Wallet.Value (Unmarshal (Marshal demo_wallet) zero_Wallet)) < 20000"
    by (simp add: Unmarshal_Marshal_Value demo_wallet_def)
  note t = C3_insufficient_balance [of demo_stub "''1''" "Marshal demo_wallet" "''2''"
        "Marshal zero_Wallet" 20000 "''3''" "''20181212''" "''20000''" "''1''"]
  have e: "fst (transfer demo_stub [''1'', ''2'', ''20000'', ''3'', ''20181212'']) =
             Error (InsufficientBalance ''1'')"
    using t g l unfolding d by simp
  then have "snd (transfer demo_stub [''1'', ''2'', ''20000'', ''3'', ''20181212'']) = demo_stub"
    using t by blast
  then show ?thesis using g d l e by (simp add: prod_eq_iff)
qed

text \<open>
  Claim C4. Once both wallets are found and the balance suffices, \<open>transfer\<close> puts the
  rewritten source wallet \<open>a\<close> first. If the store refuses it, the answer is WriteFailed
  and the stub comes back with that one call logged: the destination is not put and the
  state is unchanged. If it is accepted, the rewritten destination wallet \<open>b\<close> is put
  next; refused, the answer is WriteFailed with only the source changed; accepted, the
  answer is the transaction identifier read after the source write, and both wallets are
  stored.
\<close>

theorem C4_write_order:
  assumes "GetState stub src = Some fb" and "GetState stub dst = Some tb"
    and "\<not> Wallet.Value (Unmarshal fb zero_Wallet) < fst (ParseUint amt 32)"
  shows "\<exists>a b.
     a = Marshal \<lparr>Wallet.Value = Wallet.Value (Unmarshal fb zero_Wallet) - fst (ParseUint amt 32),
                  Transfer = \<lparr>FromOrTo = dst, TransferInfo.Value = fst (ParseUint amt 32),
                              Date = date, TxType = code\<rparr>\<rparr> \<and>
     b = Marshal \<lparr>Wallet.Value = Wallet.Value (Unmarshal tb zero_Wallet) + fst (ParseUint amt 32),
                  Transfer = \<lparr>FromOrTo = src, TransferInfo.Value = fst (ParseUint amt 32),
                              Date = date, TxType = Itoa (fst (Atoi code) + 1)\<rparr>\<rparr> \<and>
     (refuses stub src a \<longrightarrow>
        transfer stub [src, dst, amt, code, date] =
          (Error WriteFailed, stub\<lparr>puts := puts stub @ [(src, a)]\<rparr>)) \<and>
     (\<not> refuses stub src a \<and> refuses stub dst b \<longrightarrow>
        transfer stub [src, dst, amt, code, date] =
          (Error WriteFailed,
           stub\<lparr>state := (state stub)(src \<mapsto> a), puts := puts stub @ [(src, a), (dst, b)]\<rparr>)) \<and>
     (\<not> refuses stub src a \<and> \<not> refuses stub dst b \<longrightarrow>
        transfer stub [src, dst, amt, code, date] =
          (Success (txid stub),
           stub\<lparr>state := (state stub)(src \<mapsto> a, dst \<mapsto> b),
                puts := puts stub @ [(src, a), (dst, b)]\<rparr>))"
  using transfer_writes [OF assms refl refl] by simp

text \<open>
  A transfer of 1000 from "1" to "2" on a store that accepts both writes, and the same
  transfer on a store that refuses writes to "1".
\<close>

theorem C4_witness:
  "transfer demo_stub [''1'', ''2'', ''1000'', ''3'', ''20181212''] =
     (Success ''tx1'',
      demo_stub\<lparr>state := (state demo_stub)
                  (''1'' \<mapsto> Marshal \<lparr>Wallet.Value = 9000,
                      Transfer = \<lparr>FromOrTo = ''2'', TransferInfo.Value = 1000,
                                  Date = ''20181212'', TxType = ''3''\<rparr>\<rparr>,
                   ''2'' \<mapsto> Marshal \<lparr>Wallet.Value = 1000,
                      Transfer = \<lparr>FromOrTo = ''1'', TransferInfo.Value = 1000,
                                  Date = ''20181212'', TxType = ''4''\<rparr>\<rparr>),
                puts := [(''1'', Marshal \<lparr>Wallet.Value = 9000,
                      Transfer = \<lparr>FromOrTo = ''2'', TransferInfo.Value = 1000,
                                  Date = ''20181212'', TxType = ''3''\<rparr>\<rparr>),
                         (''2'', Marshal \<lparr>Wallet.Value = 1000,
                      Transfer = \<lparr>FromOrTo = ''1'', TransferInfo.Value = 1000,
                                  Date = ''20181212'', TxType = ''4''\<rparr>\<rparr>)]\<rparr>) \<and>
   fst (transfer refusing_stub [''1'', ''2'', ''1000'', ''3'', ''20181212'']) = Error WriteFailed \<and>
   length (puts (snd (transfer refusing_stub [''1'', ''2'', ''1000'', ''3'', ''20181212'']))) = 1 \<and>
   state (snd (transfer refusing_stub [''1'', ''2'', ''1000'', ''3'', ''20181212''])) =
     state refusing_stub"
proof -
  have g: "GetState demo_stub ''1'' = Some (Marshal demo_wallet)"
    "GetState demo_stub ''2'' = Some (Marshal zero_Wallet)"
    "GetState refusing_stub ''1'' = Some (Marshal demo_wallet)"
    "GetState refusing_stub ''2'' = Some (Marshal zero_Wallet)"
    by (simp_all add: GetState_def demo_stub_def refusing_stub_def)
  have v: "fst (ParseUint ''1000'' 32) = 1000" "Itoa (fst (Atoi ''3'') + 1) = ''4''"
    by (simp_all add: eval_strconv)
  have l: "\<not> Wallet.Value (Unmarshal (Marshal demo_wallet) zero_Wallet) < fst (ParseUint ''1000'' 32)"
    by (simp add: Unmarshal_Marshal demo_wallet_def v word_less_nat_alt)
  have a: "transfer demo_stub [''1'', ''2'', ''1000'', ''3'', ''20181212''] =
     (Success ''tx1'',
      demo_stub\<lparr>state := (state demo_stub)
                  (''1'' \<mapsto> Marshal \<lparr>Wallet.Value = 9000,
                      Transfer = \<lparr>FromOrTo = ''2'', TransferInfo.Value = 1000,
                                  Date = ''20181212'', TxType = ''3''\<rparr>\<rparr>,
                   ''2'' \<mapsto> Marshal \<lparr>Wallet.Value = 1000,
                      Transfer = \<lparr>FromOrTo = ''1'', TransferInfo.Value = 1000,
                                  Date = ''20181212'', TxType = ''4''\<rparr>\<rparr>),
                puts := [(''1'', Marshal \<lparr>Wallet.Value = 9000,
                      Transfer = \<lparr>FromOrTo = ''2'', TransferInfo.Value = 1000,
                                  Date = ''20181212'', TxType = ''3''\<rparr>\<rparr>),
                         (''2'', Marshal \<lparr>Wallet.Value = 1000,
                      Transfer = \<lparr>FromOrTo = ''1'', TransferInfo.Value = 1000,
                                  Date = ''20181212'', TxType = ''4''\<rparr>\<rparr>)]\<rparr>)"
    unfolding transfer_writes [OF g(1,2) l refl refl]
    by (simp add: v Unmarshal_Marshal demo_wallet_def demo_stub_def zero_Wallet_def)
  have b: "transfer refusing_stub [''1'', ''2'', ''1000'', ''3'', ''20181212''] =
     (Error WriteFailed,
      refusing_stub\<lparr>puts := [(''1'', Marshal \<lparr>Wallet.Value = 9000,
                      Transfer = \<lparr>FromOrTo = ''2'', TransferInfo.Value = 1000,
                                  Date = ''20181212'', TxType = ''3''\<rparr>\<rparr>)]\<rparr>)"
    unfolding transfer_writes [OF g(3,4) l refl refl]
    by (simp add: v Unmarshal_Marshal demo_wallet_def demo_stub_def refusing_stub_def)
  show ?thesis
    using C4_write_order [where date = "''20181212''" and code = "''3''", OF g(1,2) l]
      C4_write_order [where date = "''20181212''" and code = "''3''", OF g(3,4) l] a b by simp
qed

text \<open>
  Claim C5 says that a self-transfer adds the amount to the balance. Wallet "1" of
  \<open>big_stub\<close> holds 200000000000; it sends itself 99999999999, which is read at 32 bits,
  and ends with 204294967295, not 299999999999.
\<close>

theorem C5_counterexample:
  "map_option Wallet.Value (read_wallet big_stub ''1'') = Some 200000000000 \<and>
   (99999999999 :: nat) \<le> 200000000000 \<and>
   fst (transfer big_stub [''1'', ''1'', ''99999999999'', ''3'', ''20181212'']) = Success ''tx9'' \<and>
   map_option Wallet.Value
     (read_wallet (snd (transfer big_stub [''1'', ''1'', ''99999999999'', ''3'', ''20181212''])) ''1'') =
     Some 204294967295 \<and>
   (204294967295 :: 64 word) \<noteq> 200000000000 + 99999999999"
proof -
  have g: "GetState big_stub ''1'' =
             Some (Marshal \<lparr>Wallet.Value = 200000000000, Transfer = zero_TransferInfo\<rparr>)"
    by (simp add: GetState_def big_stub_def)
  have v: "fst (ParseUint ''99999999999'' 32) = 4294967295"
    by (simp add: eval_strconv)
  have l: "\<not> Wallet.Value (Unmarshal (Marshal \<lparr>Wallet.Value = 200000000000,
               Transfer = zero_TransferInfo\<rparr>) zero_Wallet) < fst (ParseUint ''99999999999'' 32)"
    by (simp add: v Unmarshal_Marshal_Value word_less_nat_alt)
  show ?thesis
    unfolding transfer_writes [OF g g l refl refl]
    by (simp add: v read_wallet_def GetState_def Unmarshal_Marshal_Value big_stub_def)
qed

text \<open>
  Claim C5, as the code has it. A transfer from a wallet to itself of the amount \<open>n\<close>
  written in decimal, read as \<open>v\<close> (\<open>n\<close> below \<open>2 ^ 32\<close>, 4294967295 otherwise), with
  a balance of at least \<open>v\<close> and a store that accepts writes to that key, succeeds. The
  credited copy is written last, so the wallet reads back with the old balance plus \<open>v\<close>
  (the \<open>uint64\<close> addition of the source; the sum as numbers when it fits 64 bits): for an
  amount other than 0 the balance has changed, and value is not conserved.
\<close>

theorem C5_self_transfer:
  assumes "GetState stub key = Some b"
    and "(if n < 2 ^ 32 then n else 4294967295) \<le> unat (Wallet.Value (Unmarshal b zero_Wallet))"
    and "\<forall>x. \<not> refuses stub key x"
  shows "\<exists>v. v = (if n < 2 ^ 32 then n else 4294967295) \<and>
         fst (transfer stub [key, key, decimal n, code, date]) = Success (txid stub) \<and>
         map_option Wallet.Value
           (read_wallet (snd (transfer stub [key, key, decimal n, code, date])) key) =
           Some (Wallet.Value (Unmarshal b zero_Wallet) + of_nat v) \<and>
         (0 < n \<longrightarrow>
            map_option Wallet.Value
              (read_wallet (snd (transfer stub [key, key, decimal n, code, date])) key) \<noteq>
            map_option Wallet.Value (read_wallet stub key)) \<and>
         (unat (Wallet.Value (Unmarshal b zero_Wallet)) + v < 2 ^ 64 \<longrightarrow>
            map_option (unat \<circ> Wallet.Value)
              (read_wallet (snd (transfer stub [key, key, decimal n, code, date])) key) =
            Some (unat (Wallet.Value (Unmarshal b zero_Wallet)) + v))"
proof -
  define v where "v = (if n < 2 ^ 32 then n else 4294967295)"
  have vb: "v < 2 ^ 64" by (simp add: v_def)
  have uv: "unat (of_nat v :: 64 word) = v" using vb by (simp add: unat_of_nat)
  have p: "fst (ParseUint (decimal n) 32) = of_nat v"
    by (simp add: v_def ParseUint_decimal_32 ParseUint_decimal_range_32)
  have le: "v \<le> unat (Wallet.Value (Unmarshal b zero_Wallet))"
    using assms(2) unfolding v_def .
  have l: "\<not> Wallet.Value (Unmarshal b zero_Wallet) < fst (ParseUint (decimal n) 32)"
    using le by (simp add: p word_less_nat_alt uv)
  have nz: "0 < n \<Longrightarrow> (of_nat v :: 64 word) \<noteq> 0"
  proof
    assume "0 < n" and "(of_nat v :: 64 word) = 0"
    then have "unat (of_nat v :: 64 word) = 0" by simp
    then have "v = 0" using uv by simp
    then show False using \<open>0 < n\<close> by (simp add: v_def split: if_splits)
  qed
  have r: "fst (transfer stub [key, key, decimal n, code, date]) = Success (txid stub) \<and>
         map_option Wallet.Value
           (read_wallet (snd (transfer stub [key, key, decimal n, code, date])) key) =
           Some (Wallet.Value (Unmarshal b zero_Wallet) + of_nat v)"
    unfolding transfer_writes [OF assms(1) assms(1) l refl refl]
    using assms(3) by (simp add: read_wallet_def GetState_def Unmarshal_Marshal_Value p)
  have o: "map_option Wallet.Value (read_wallet stub key) = Some (Wallet.Value (Unmarshal b zero_Wallet))"
    using assms(1) by (simp add: read_wallet_def)
  have c: "0 < n \<Longrightarrow>
            map_option Wallet.Value
              (read_wallet (snd (transfer stub [key, key, decimal n, code, date])) key) \<noteq>
            map_option Wallet.Value (read_wallet stub key)"
  proof -
    assume n: "0 < n"
    have "Wallet.Value (Unmarshal b zero_Wallet) + of_nat v \<noteq> Wallet.Value (Unmarshal b zero_Wallet)"
      using nz [OF n] by simp
    then show ?thesis unfolding conjunct2 [OF r] o by simp
  qed
  have s: "unat (Wallet.Value (Unmarshal b zero_Wallet)) + v < 2 ^ 64 \<Longrightarrow>
            map_option (unat \<circ> Wallet.Value)
              (read_wallet (snd (transfer stub [key, key, decimal n, code, date])) key) =
            Some (unat (Wallet.Value (Unmarshal b zero_Wallet)) + v)"
  proof -
    assume a: "unat (Wallet.Value (Unmarshal b zero_Wallet)) + v < 2 ^ 64"
    have "unat (Wallet.Value (Unmarshal b zero_Wallet) + of_nat v) =
          (unat (Wallet.Value (Unmarshal b zero_Wallet)) + unat (of_nat v :: 64 word)) mod 2 ^ LENGTH(64)"
      by (rule unat_word_ariths(1))
    then have "unat (Wallet.Value (Unmarshal b zero_Wallet) + of_nat v) =
          unat (Wallet.Value (Unmarshal b zero_Wallet)) + v"
      using a uv by simp
    then show ?thesis
      using r by (cases "read_wallet (snd (transfer stub [key, key, decimal n, code, date])) key") auto
  qed
  show ?thesis using r c s unfolding v_def by blast
qed

text \<open>Wallet "1" holds 10000 and sends 1000 to itself: it then holds 11000.\<close>

theorem C5_witness:
  "GetState demo_stub ''1'' = Some (Marshal demo_wallet) \<and>
   (1000 :: nat) \<le> unat (Wallet.Value (Unmarshal (Marshal demo_wallet) zero_Wallet)) \<and>
   (\<forall>x. \<not> refuses demo_stub ''1'' x) \<and>
   decimal 1000 = ''1000'' \<and>
   map_option Wallet.Value (read_wallet demo_stub ''1'') = Some 10000 \<and>
   map_option Wallet.Value
     (read_wallet (snd (transfer demo_stub [''1'', ''1'', ''1000'', ''7'', ''20181213''])) ''1'') =
     Some 11000"
proof -
  have g: "GetState demo_stub ''1'' = Some (Marshal demo_wallet)"
    by (simp add: GetState_def demo_stub_def)
  have d: "decimal 1000 = ''1000''"
    by (simp add: decimal.simps digit_char_def)
  have l: "(if (1000::nat) < 2 ^ 32 then 1000 else 4294967295) \<le>
             unat (Wallet.Value (Unmarshal (Marshal demo_wallet) zero_Wallet))"
    by (simp add: Unmarshal_Marshal_Value demo_wallet_def)
  have r: "\<forall>x. \<not> refuses demo_stub ''1'' x"
    by (simp add: demo_stub_def)
  have w: "map_option Wallet.Value (read_wallet demo_stub ''1'') = Some 10000"
    by (simp add: read_wallet_def g Unmarshal_Marshal_Value demo_wallet_def)
  show ?thesis
    using C5_self_transfer [where code = "''7''" and date = "''20181213''", OF g l r] g l r w
    unfolding d by (simp add: Unmarshal_Marshal_Value demo_wallet_def)
qed

text \<open>
  Between two different identifiers a successful transfer debits the source by the amount
  and credits the destination by it. The sum of both balances is kept in \<open>uint64\<close>
  arithmetic, and as numbers when the credit does not overflow.
\<close>

lemma transfer_conserves_distinct:
  assumes "transfer stub [src, dst, amt, code, date] = (Success t, stub')"
    and "src \<noteq> dst"
  shows "\<exists>f g f' g'. read_wallet stub src = Some f \<and> read_wallet stub dst = Some g \<and>
           read_wallet stub' src = Some f' \<and> read_wallet stub' dst = Some g' \<and>
           Wallet.Value f' = Wallet.Value f - fst (ParseUint amt 32) \<and>
           Wallet.Value g' = Wallet.Value g + fst (ParseUint amt 32) \<and>
           Wallet.Value f' + Wallet.Value g' = Wallet.Value f + Wallet.Value g \<and>
           (unat (Wallet.Value g) + unat (fst (ParseUint amt 32)) < 2 ^ 64 \<longrightarrow>
              unat (Wallet.Value f') + unat (Wallet.Value g') =
              unat (Wallet.Value f) + unat (Wallet.Value g))"
proof (cases "GetState stub src")
  case None
  then show ?thesis using assms(1) by (simp add: transfer_early)
next
  case (Some fb)
  note f = this
  show ?thesis
  proof (cases "GetState stub dst")
    case None
    then show ?thesis using assms(1) by (simp add: transfer_early)
  next
    case (Some tb)
    show ?thesis
    proof (cases "Wallet.Value (Unmarshal fb zero_Wallet) < fst (ParseUint amt 32)")
      case True
      then show ?thesis using assms(1) by (simp add: transfer_insufficient [OF f Some True])
    next
      case False
      have le: "unat (fst (ParseUint amt 32)) \<le> unat (Wallet.Value (Unmarshal fb zero_Wallet))"
        using False by (simp add: word_less_nat_alt)
      have sub: "unat (Wallet.Value (Unmarshal fb zero_Wallet) - fst (ParseUint amt 32)) =
                 unat (Wallet.Value (Unmarshal fb zero_Wallet)) - unat (fst (ParseUint amt 32))"
        using le by (simp add: unat_sub word_le_nat_alt)
      have add: "unat (Wallet.Value (Unmarshal tb zero_Wallet)) + unat (fst (ParseUint amt 32)) < 2 ^ 64 \<Longrightarrow>
                 unat (Wallet.Value (Unmarshal tb zero_Wallet) + fst (ParseUint amt 32)) =
                 unat (Wallet.Value (Unmarshal tb zero_Wallet)) + unat (fst (ParseUint amt 32))"
        by (simp add: unat_word_ariths)
      have s': "stub' = stub\<lparr>state := (state stub)
             (src \<mapsto> Marshal \<lparr>Wallet.Value = Wallet.Value (Unmarshal fb zero_Wallet) - fst (ParseUint amt 32),
               Transfer = \<lparr>FromOrTo = dst, TransferInfo.Value = fst (ParseUint amt 32),
                           Date = date, TxType = code\<rparr>\<rparr>,
              dst \<mapsto> Marshal \<lparr>Wallet.Value = Wallet.Value (Unmarshal tb zero_Wallet) + fst (ParseUint amt 32),
               Transfer = \<lparr>FromOrTo = src, TransferInfo.Value = fst (ParseUint amt 32),
                           Date = date, TxType = Itoa (fst (Atoi code) + 1)\<rparr>\<rparr>),
             puts := puts stub' \<rparr>"
        using assms(1) unfolding transfer_writes [OF f Some False refl refl]
        by (auto split: if_splits)
      have r1: "read_wallet stub src = Some (Unmarshal fb zero_Wallet)"
        "read_wallet stub dst = Some (Unmarshal tb zero_Wallet)"
        using f Some by (simp_all add: read_wallet_def)
      have r2: "\<exists>f'. read_wallet stub' src = Some f' \<and>
          Wallet.Value f' = Wallet.Value (Unmarshal fb zero_Wallet) - fst (ParseUint amt 32)"
        "\<exists>g'. read_wallet stub' dst = Some g' \<and>
          Wallet.Value g' = Wallet.Value (Unmarshal tb zero_Wallet) + fst (ParseUint amt 32)"
        using assms(2) by (subst s', simp add: read_wallet_def GetState_def Unmarshal_Marshal_Value)+
      then obtain f' g' where
        f': "read_wallet stub' src = Some f'"
          "Wallet.Value f' = Wallet.Value (Unmarshal fb zero_Wallet) - fst (ParseUint amt 32)" and
        g': "read_wallet stub' dst = Some g'"
          "Wallet.Value g' = Wallet.Value (Unmarshal tb zero_Wallet) + fst (ParseUint amt 32)"
        by blast
      show ?thesis
        unfolding r1 f'(1) g'(1) using le sub add f'(2) g'(2) by simp
    qed
  qed
qed

text \<open>
  Claim C1 says that every successful transfer keeps the sum of the source and destination
  balances. The transfer of 1000 from wallet "1" to itself succeeds, and the wallet goes
  from 10000 to 11000: source and destination are the same wallet, so the sum of "both"
  balances goes from 20000 to 22000.
\<close>

theorem C1_self_transfer_sum_grows:
  "fst (transfer demo_stub [''1'', ''1'', ''1000'', ''3'', ''20181212'']) = Success ''tx1'' \<and>
   map_option Wallet.Value (read_wallet demo_stub ''1'') = Some 10000 \<and>
   map_option Wallet.Value
     (read_wallet (snd (transfer demo_stub [''1'', ''1'', ''1000'', ''3'', ''20181212''])) ''1'') =
     Some 11000"
proof -
  have g: "GetState demo_stub ''1'' = Some (Marshal demo_wallet)"
    by (simp add: GetState_def demo_stub_def)
  have v: "fst (ParseUint ''1000'' 32) = 1000"
    by (simp add: eval_strconv)
  have l: "\<not> Wallet.Value (Unmarshal (Marshal demo_wallet) zero_Wallet) < fst (ParseUint ''1000'' 32)"
    by (simp add: v Unmarshal_Marshal demo_wallet_def word_less_nat_alt)
  show ?thesis
    unfolding transfer_writes [OF g g l refl refl]
    by (simp add: v read_wallet_def GetState_def Unmarshal_Marshal demo_wallet_def demo_stub_def)
qed

text \<open>
  Claim C2 says that the destination records the base code and the source the base code
  plus one. In the scenario of the specification, the transfer of 1000 from "1" to "2"
  with code "3", it is the other way round: the source "1" records "3" and the destination
  "2" records "4".
\<close>

theorem C2_counterexample:
  "fst (transfer demo_stub [''1'', ''2'', ''1000'', ''3'', ''20181212'']) = Success ''tx1'' \<and>
   map_option (TxType \<circ> Transfer)
     (read_wallet (snd (transfer demo_stub [''1'', ''2'', ''1000'', ''3'', ''20181212''])) ''2'') =
     Some ''4'' \<and>
   map_option (TxType \<circ> Transfer)
     (read_wallet (snd (transfer demo_stub [''1'', ''2'', ''1000'', ''3'', ''20181212''])) ''1'') =
     Some ''3'' \<and>
   \<not> (map_option (TxType \<circ> Transfer)
       (read_wallet (snd (transfer demo_stub [''1'', ''2'', ''1000'', ''3'', ''20181212''])) ''2'') =
       Some ''3'' \<and>
      map_option (TxType \<circ> Transfer)
       (read_wallet (snd (transfer demo_stub [''1'', ''2'', ''1000'', ''3'', ''20181212''])) ''1'') =
       Some ''4'')"
proof -
  have g: "GetState demo_stub ''1'' = Some (Marshal demo_wallet)"
    "GetState demo_stub ''2'' = Some (Marshal zero_Wallet)"
    by (simp_all add: GetState_def demo_stub_def)
  have v: "fst (ParseUint ''1000'' 32) = 1000" "Itoa (fst (Atoi ''3'') + 1) = ''4''"
    by (simp_all add: eval_strconv)
  have l: "\<not> Wallet.Value (Unmarshal (Marshal demo_wallet) zero_Wallet) < fst (ParseUint ''1000'' 32)"
    by (simp add: v Unmarshal_Marshal demo_wallet_def word_less_nat_alt)
  show ?thesis
    unfolding transfer_writes [OF g l refl refl]
    by (simp add: v read_wallet_def GetState_def Unmarshal_Marshal demo_stub_def eval_json)
qed

text \<open>
  Claim C2, as the code has it. In a successful transfer the wallet written for the source
  carries the code string as supplied, and the wallet written for the destination carries
  \<open>Itoa (Atoi code + 1)\<close>. The destination reads back with that code; the source reads
  back, when the two identifiers differ, with the supplied string as encoding/json stores
  it. For a code that is the decimal numeral of an \<open>int\<close> \<open>c\<close>, the destination's code
  is the numeral of \<open>c + 1\<close> (wrapping at 64 bits) and, between two different
  identifiers, the source's code is the numeral of \<open>c\<close>. In a transfer from a wallet to
  itself the destination is that wallet, which ends with the code \<open>c + 1\<close>.
\<close>

theorem C2_movement_codes:
  assumes "transfer stub [src, dst, amt, code, date] = (Success t, stub')"
  shows "(\<exists>fw tw. puts stub' = puts stub @ [(src, Marshal fw), (dst, Marshal tw)] \<and>
            TxType (Transfer fw) = code \<and>
            TxType (Transfer tw) = Itoa (fst (Atoi code) + 1)) \<and>
         map_option (TxType \<circ> Transfer) (read_wallet stub' dst) =
           Some (Itoa (fst (Atoi code) + 1)) \<and>
         (src \<noteq> dst \<longrightarrow>
            map_option (TxType \<circ> Transfer) (read_wallet stub' src) = Some (json_string code)) \<and>
         (\<forall>c. code = Itoa c \<longrightarrow>
            map_option (TxType \<circ> Transfer) (read_wallet stub' dst) = Some (Itoa (c + 1)) \<and>
            (src \<noteq> dst \<longrightarrow>
               map_option (TxType \<circ> Transfer) (read_wallet stub' src) = Some (Itoa c)))"
proof (cases "GetState stub src")
  case None
  then show ?thesis using assms by (simp add: transfer_early)
next
  case (Some fb)
  note f = this
  show ?thesis
  proof (cases "GetState stub dst")
    case None
    then show ?thesis using assms by (simp add: transfer_early)
  next
    case (Some tb)
    show ?thesis
    proof (cases "Wallet.Value (Unmarshal fb zero_Wallet) < fst (ParseUint amt 32)")
      case True
      then show ?thesis using assms by (simp add: transfer_insufficient [OF f Some True])
    next
      case False
      define fw where "fw = \<lparr>Wallet.Value = Wallet.Value (Unmarshal fb zero_Wallet) - fst (ParseUint amt 32),
               Transfer = \<lparr>FromOrTo = dst, TransferInfo.Value = fst (ParseUint amt 32),
                           Date = date, TxType = code\<rparr>\<rparr>"
      define tw where "tw = \<lparr>Wallet.Value = Wallet.Value (Unmarshal tb zero_Wallet) + fst (ParseUint amt 32),
               Transfer = \<lparr>FromOrTo = src, TransferInfo.Value = fst (ParseUint amt 32),
                           Date = date, TxType = Itoa (fst (Atoi code) + 1)\<rparr>\<rparr>"
      have fw: "TxType (Transfer fw) = code" by (simp add: fw_def)
      have tw: "TxType (Transfer tw) = Itoa (fst (Atoi code) + 1)" by (simp add: tw_def)
      have w: "transfer stub [src, dst, amt, code, date] =
          (if refuses stub src (Marshal fw)
           then (Error WriteFailed, stub\<lparr>puts := puts stub @ [(src, Marshal fw)]\<rparr>)
           else if refuses stub dst (Marshal tw)
           then (Error WriteFailed,
                 stub\<lparr>state := (state stub)(src \<mapsto> Marshal fw),
                      puts := puts stub @ [(src, Marshal fw), (dst, Marshal tw)]\<rparr>)
           else (Success (txid stub),
                 stub\<lparr>state := (state stub)(src \<mapsto> Marshal fw, dst \<mapsto> Marshal tw),
                      puts := puts stub @ [(src, Marshal fw), (dst, Marshal tw)]\<rparr>))"
        by (rule transfer_writes [OF f Some False fw_def tw_def])
      have s': "stub' = stub\<lparr>state := (state stub)(src \<mapsto> Marshal fw, dst \<mapsto> Marshal tw),
                      puts := puts stub @ [(src, Marshal fw), (dst, Marshal tw)]\<rparr>"
        using assms unfolding w by (auto split: if_splits)
      have p: "\<exists>fw tw. puts stub' = puts stub @ [(src, Marshal fw), (dst, Marshal tw)] \<and>
            TxType (Transfer fw) = code \<and> TxType (Transfer tw) = Itoa (fst (Atoi code) + 1)"
        using s' fw tw by auto
      have d: "map_option (TxType \<circ> Transfer) (read_wallet stub' dst) =
           Some (Itoa (fst (Atoi code) + 1))"
        by (subst s', simp add: read_wallet_def GetState_def Unmarshal_Marshal tw json_string_Itoa)
      have s: "src \<noteq> dst \<Longrightarrow>
          map_option (TxType \<circ> Transfer) (read_wallet stub' src) = Some (json_string code)"
        by (subst s', simp add: read_wallet_def GetState_def Unmarshal_Marshal fw)
      have c: "\<forall>c. code = Itoa c \<longrightarrow>
            map_option (TxType \<circ> Transfer) (read_wallet stub' dst) = Some (Itoa (c + 1)) \<and>
            (src \<noteq> dst \<longrightarrow>
               map_option (TxType \<circ> Transfer) (read_wallet stub' src) = Some (Itoa c))"
      proof (intro allI impI conjI)
        fix c
        assume "code = Itoa c"
        then have "fst (Atoi code) = c" by (simp add: Atoi_Itoa)
        then show "map_option (TxType \<circ> Transfer) (read_wallet stub' dst) = Some (Itoa (c + 1))"
          using d by simp
      next
        fix c
        assume "code = Itoa c" and "src \<noteq> dst"
        then show "map_option (TxType \<circ> Transfer) (read_wallet stub' src) = Some (Itoa c)"
          using s by (simp add: json_string_Itoa)
      qed
      show ?thesis using p d s c by blast
    qed
  qed
qed

text \<open>Code 5 from "1" to "2": the source records "5", the destination "6".\<close>

theorem C2_witness:
  "transfer demo_stub [''1'', ''2'', ''1000'', Itoa 5, ''20181212''] =
     (Success ''tx1'', snd (transfer demo_stub [''1'', ''2'', ''1000'', Itoa 5, ''20181212''])) \<and>
   ''1'' \<noteq> ''2'' \<and> Itoa 5 = ''5'' \<and>
   map_option (TxType \<circ> Transfer)
     (read_wallet (snd (transfer demo_stub [''1'', ''2'', ''1000'', Itoa 5, ''20181212''])) ''1'') =
     Some ''5'' \<and>
   map_option (TxType \<circ> Transfer)
     (read_wallet (snd (transfer demo_stub [''1'', ''2'', ''1000'', Itoa 5, ''20181212''])) ''2'') =
     Some ''6''"
proof -
  have g: "GetState demo_stub ''1'' = Some (Marshal demo_wallet)"
    "GetState demo_stub ''2'' = Some (Marshal zero_Wallet)"
    by (simp_all add: GetState_def demo_stub_def)
  have v: "fst (ParseUint ''1000'' 32) = 1000"
    by (simp add: eval_strconv)
  have i: "Itoa 5 = ''5''" "Itoa (5 + 1) = ''6''"
    by (simp_all add: eval_strconv)
  have l: "\<not> Wallet.Value (Unmarshal (Marshal demo_wallet) zero_Wallet) < fst (ParseUint ''1000'' 32)"
    by (simp add: v Unmarshal_Marshal demo_wallet_def word_less_nat_alt)
  have a: "transfer demo_stub [''1'', ''2'', ''1000'', Itoa 5, ''20181212''] =
     (Success ''tx1'', snd (transfer demo_stub [''1'', ''2'', ''1000'', Itoa 5, ''20181212'']))"
    unfolding transfer_writes [OF g l refl refl] by (simp add: demo_stub_def)
  have ne: "''1'' \<noteq> ''2''" by simp
  note t = C2_movement_codes [OF a]
  have d: "map_option (TxType \<circ> Transfer)
     (read_wallet (snd (transfer demo_stub [''1'', ''2'', ''1000'', Itoa 5, ''20181212''])) ''2'') =
     Some (Itoa (5 + 1))"
    using t by blast
  have s: "map_option (TxType \<circ> Transfer)
     (read_wallet (snd (transfer demo_stub [''1'', ''2'', ''1000'', Itoa 5, ''20181212''])) ''1'') =
     Some (Itoa 5)"
    using t ne by blast
  show ?thesis
    using a ne d s unfolding i by blast
qed

section \<open>History\<close>

text \<open>
  What holds of the loop of \<open>get_txList\<close>: when no \<open>Next()\<close> fails it returns one entry
  per historical write, in order and with that write's transaction identifier, and the
  entry of a write without value is the zero wallet.
\<close>

lemma get_txList_loop_entries:
  "\<exists>es. get_txList_loop (map Inr hs) wallet hist = Inr (hist @ es) \<and>
        map get_History.TxId es = map KeyModification.TxId hs \<and>
        (\<forall>i < length hs. KeyModification.Value (hs ! i) = None \<longrightarrow>
              get_History.Value (es ! i) = zero_Wallet)"
proof (induction hs arbitrary: wallet hist)
  case Nil
  then show ?case by simp
next
  case (Cons h hs)
  show ?case
  proof (cases "KeyModification.Value h")
    case None
    obtain es where
      es: "get_txList_loop (map Inr hs) wallet
             (hist @ [\<lparr>get_History.TxId = KeyModification.TxId h, get_History.Value = zero_Wallet\<rparr>]) =
           Inr ((hist @ [\<lparr>get_History.TxId = KeyModification.TxId h, get_History.Value = zero_Wallet\<rparr>]) @ es)"
        "map get_History.TxId es = map KeyModification.TxId hs"
        "\<forall>i < length hs. KeyModification.Value (hs ! i) = None \<longrightarrow>
              get_History.Value (es ! i) = zero_Wallet"
      using Cons.IH by blast
    let ?es = "\<lparr>get_History.TxId = KeyModification.TxId h, get_History.Value = zero_Wallet\<rparr> # es"
    have "get_txList_loop (map Inr (h # hs)) wallet hist = Inr (hist @ ?es)"
      using None es(1) by (simp add: Unmarshal_slice_def Let_def)
    moreover have "map get_History.TxId ?es = map KeyModification.TxId (h # hs)"
      using es(2) by simp
    moreover have "\<forall>i < length (h # hs). KeyModification.Value ((h # hs) ! i) = None \<longrightarrow>
              get_History.Value (?es ! i) = zero_Wallet"
      using es(3) by (auto simp: nth_Cons split: nat.splits)
    ultimately show ?thesis by blast
  next
    case (Some v)
    let ?w = "Unmarshal v (Unmarshal v wallet)"
    obtain es where
      es: "get_txList_loop (map Inr hs) ?w
             (hist @ [\<lparr>get_History.TxId = KeyModification.TxId h, get_History.Value = ?w\<rparr>]) =
           Inr ((hist @ [\<lparr>get_History.TxId = KeyModification.TxId h, get_History.Value = ?w\<rparr>]) @ es)"
        "map get_History.TxId es = map KeyModification.TxId hs"
        "\<forall>i < length hs. KeyModification.Value (hs ! i) = None \<longrightarrow>
              get_History.Value (es ! i) = zero_Wallet"
      using Cons.IH by blast
    let ?es = "\<lparr>get_History.TxId = KeyModification.TxId h, get_History.Value = ?w\<rparr> # es"
    have "get_txList_loop (map Inr (h # hs)) wallet hist = Inr (hist @ ?es)"
      using Some es(1) by (simp add: Unmarshal_slice_def Let_def)
    moreover have "map get_History.TxId ?es = map KeyModification.TxId (h # hs)"
      using es(2) by simp
    moreover have "\<forall>i < length (h # hs). KeyModification.Value ((h # hs) ! i) = None \<longrightarrow>
              get_History.Value (?es ! i) = zero_Wallet"
      using es(3) Some by (auto simp: nth_Cons split: nat.splits)
    ultimately show ?thesis by blast
  qed
qed

text \<open>
  Claim C9 says that an entry whose value does not decode is rendered as the zero wallet.
  Key "1" of \<open>history_stub\<close> was written twice: a wallet of balance 10000, then bytes
  that are not JSON. The second entry of the result is not the zero wallet but the wallet
  of the first entry, left in the variable the loop decodes into. The same bytes read by
  the other handlers, which decode into a fresh wallet, give the zero wallet.
\<close>

theorem C9_stale_wallet_in_history:
  "Unmarshal_fails Malformed \<and>
   get_txList history_stub [''1''] =
     Success [\<lparr>get_History.TxId = ''tx1'', get_History.Value = demo_wallet\<rparr>,
              \<lparr>get_History.TxId = ''tx2'', get_History.Value = demo_wallet\<rparr>] \<and>
   demo_wallet \<noteq> zero_Wallet \<and>
   Unmarshal Malformed zero_Wallet = zero_Wallet"
proof -
  have a: "get_txList history_stub [''1''] =
     Success [\<lparr>get_History.TxId = ''tx1'', get_History.Value = demo_wallet\<rparr>,
              \<lparr>get_History.TxId = ''tx2'', get_History.Value = demo_wallet\<rparr>]"
    by (simp add: get_txList_def GetHistoryForKey_def history_stub_def Unmarshal_slice_def Let_def
        Unmarshal_Marshal_demo)
  have b: "demo_wallet \<noteq> zero_Wallet"
    by (simp add: demo_wallet_def zero_Wallet_def)
  show ?thesis using a b by simp
qed

end
